theory Spec2Isabelle
  imports Complex_Main
begin

section \<open>Numbers and vectors\<close>

text \<open>
  The simulation core of the planetoids game (class \<open>Physics\<close> and
  \<open>PlayerController.alignWithSurface\<close>) is embedded over the real numbers: every
  JavaScript \<open>number\<close> is a \<^typ>\<open>real\<close>, so rounding is idealised away. The two
  non-real values the code relies on are written out where they occur:
  \<open>Infinity\<close> as the initial \<open>minDistance\<close> is the absence of a nearest planet, and
  \<open>NaN\<close> (arithmetic on an \<open>undefined\<close> radius, the square root of a negative
  number) is a branch of its own in which every comparison is false.

  \<open>THREE.Vector3\<close> comes from the three.js library. Its operations are modelled
  from the library: \<open>normalize\<close> divides by \<open>length() || 1\<close>, so the zero vector
  stays the zero vector.
\<close>

datatype vec3 = Vector3 (vx: real) (vy: real) (vz: real)

definition addVectors :: "vec3 \<Rightarrow> vec3 \<Rightarrow> vec3" where
  "addVectors a b = Vector3 (vx a + vx b) (vy a + vy b) (vz a + vz b)"

definition subVectors :: "vec3 \<Rightarrow> vec3 \<Rightarrow> vec3" where
  "subVectors a b = Vector3 (vx a - vx b) (vy a - vy b) (vz a - vz b)"

definition multiplyScalar :: "vec3 \<Rightarrow> real \<Rightarrow> vec3" where
  "multiplyScalar v s = Vector3 (vx v * s) (vy v * s) (vz v * s)"

definition negate :: "vec3 \<Rightarrow> vec3" where
  "negate v = Vector3 (- vx v) (- vy v) (- vz v)"

definition dot :: "vec3 \<Rightarrow> vec3 \<Rightarrow> real" where
  "dot a b = vx a * vx b + vy a * vy b + vz a * vz b"

definition lengthSq :: "vec3 \<Rightarrow> real" where
  "lengthSq v = vx v * vx v + vy v * vy v + vz v * vz v"

definition vlength :: "vec3 \<Rightarrow> real" where
  "vlength v = sqrt (lengthSq v)"

definition normalize_v :: "vec3 \<Rightarrow> vec3" where
  "normalize_v v = multiplyScalar v (1 / (if vlength v = 0 then 1 else vlength v))"

definition distanceTo :: "vec3 \<Rightarrow> vec3 \<Rightarrow> real" where
  "distanceTo a b = sqrt (lengthSq (subVectors a b))"

definition crossVectors :: "vec3 \<Rightarrow> vec3 \<Rightarrow> vec3" where
  "crossVectors a b = Vector3 (vy a * vz b - vz a * vy b)
                              (vz a * vx b - vx a * vz b)
                              (vx a * vy b - vy a * vx b)"

text \<open>\<open>projectOnPlane(n)\<close> subtracts the projection on \<open>n\<close>, which three.js takes to
  be the zero vector when \<open>n\<close> has length zero.\<close>

definition projectOnVector :: "vec3 \<Rightarrow> vec3 \<Rightarrow> vec3" where
  "projectOnVector v n =
     (if lengthSq n = 0 then Vector3 0 0 0 else multiplyScalar n (dot n v / lengthSq n))"

definition projectOnPlane :: "vec3 \<Rightarrow> vec3 \<Rightarrow> vec3" where
  "projectOnPlane v n = subVectors v (projectOnVector v n)"

datatype quaternion = Quaternion (qx: real) (qy: real) (qz: real) (qw: real)

definition applyQuaternion :: "vec3 \<Rightarrow> quaternion \<Rightarrow> vec3" where
  "applyQuaternion v q =
     (let tx = 2 * (qy q * vz v - qz q * vy v);
          ty = 2 * (qz q * vx v - qx q * vz v);
          tz = 2 * (qx q * vy v - qy q * vx v)
      in Vector3 (vx v + qw q * tx + qy q * tz - qz q * ty)
                 (vy v + qw q * ty + qz q * tx - qx q * tz)
                 (vz v + qw q * tz + qx q * ty - qy q * tx))"

section \<open>Bodies\<close>

text \<open>
  A \<open>THREE.Mesh\<close> as the physics code reads it: its position, its geometry and the
  \<open>userData.isSun\<close> flag. The code casts every geometry to \<open>SphereGeometry\<close> and
  reads \<open>geometry.parameters.radius\<close>; a geometry of another class may have no
  \<open>parameters\<close> object at all (\<open>NoParameters\<close>) or parameters without a radius
  (\<open>Parameters None\<close>). \<open>position\<close> is present on every \<open>Object3D\<close>, so the guard
  \<open>!body.position\<close> never fires and is not modelled.
\<close>

datatype geometry = NoParameters | Parameters "real option"

record mesh =
  position :: vec3
  geometry :: "geometry option"
  isSun :: bool

text \<open>The unguarded read \<open>planet.geometry.parameters.radius\<close>: \<open>None\<close> is the
  \<open>TypeError\<close> thrown when \<open>geometry\<close> or \<open>parameters\<close> is undefined,
  \<open>Some None\<close> the value \<open>undefined\<close>.\<close>

definition parametersRadius :: "mesh \<Rightarrow> real option option" where
  "parametersRadius m =
     (case geometry m of
        None \<Rightarrow> None
      | Some NoParameters \<Rightarrow> None
      | Some (Parameters r) \<Rightarrow> Some r)"

text \<open>The guarded read \<open>geometry?.parameters?.radius\<close>.\<close>

definition optionalRadius :: "mesh \<Rightarrow> real option" where
  "optionalRadius m =
     (case geometry m of
        None \<Rightarrow> None
      | Some NoParameters \<Rightarrow> None
      | Some (Parameters r) \<Rightarrow> r)"

section \<open>The Physics class\<close>

datatype zone = DeepSpace | UpperAtmosphere | Atmosphere | LowAtmosphere | Surface | Noclip

record Physics =
  gravity :: real
  jumpForce :: real
  moveSpeed :: real
  jetpackForce :: real
  dragCoefficient :: real
  inSpaceDrag :: real
  inAtmosphereDrag :: real
  collisionRadius :: real
  gravitationalConstant :: real
  alignmentSpeed :: real
  alignmentDistance :: real
  atmosphereRatio :: real
  outerAtmosphereRatio :: real
  lastZone :: "zone option"
  zoneHysteresis :: real
  zoneSwitchDelay :: int

definition Physics_constructor :: Physics where
  "Physics_constructor =
     \<lparr> gravity = 98 / 10, jumpForce = 10, moveSpeed = 5, jetpackForce = 20,
       dragCoefficient = 1 / 10, inSpaceDrag = 1 / 1000, inAtmosphereDrag = 1 / 100,
       collisionRadius = 2, gravitationalConstant = 100,
       alignmentSpeed = 5 / 100, alignmentDistance = 50,
       atmosphereRatio = 125 / 100, outerAtmosphereRatio = 15 / 10,
       lastZone = None, zoneHysteresis = 1, zoneSwitchDelay = 0 \<rparr>"

text \<open>The pair \<open>{planet, distance}\<close>: \<open>None\<close> is \<open>{planet: null, distance: Infinity}\<close>.\<close>

type_synonym nearest = "(mesh \<times> real) option"

record EnvironmentResult =
  inSpace :: bool
  inTransition :: "bool option"
  inAtmosphere :: "bool option"
  env_onGround :: bool
  env_nearest :: nearest
  atmosphereZone :: zone
  transitionFactor :: "real option"

record CollisionResult =
  col_onGround :: bool
  collidedPlanet :: "mesh option"
  surfaceNormal :: "vec3 option"

subsection \<open>getNearestPlanet\<close>

text \<open>
  The \<open>forEach\<close> of \<open>getNearestPlanet\<close> with its two mutable locals as the
  accumulator. A planet whose radius is \<open>undefined\<close> gives the distance \<open>NaN\<close>,
  and \<open>NaN < minDistance\<close> is false; a planet without \<open>parameters\<close> throws.
\<close>

fun nearestLoop :: "vec3 \<Rightarrow> mesh list \<Rightarrow> nearest \<Rightarrow> nearest option" where
  "nearestLoop pos [] acc = Some acc"
| "nearestLoop pos (planet # rest) acc =
     (case parametersRadius planet of
        None \<Rightarrow> None
      | Some None \<Rightarrow> nearestLoop pos rest acc
      | Some (Some r) \<Rightarrow>
          (let distance = distanceTo pos (position planet) - r in
           if (case acc of None \<Rightarrow> True | Some (_, minDistance) \<Rightarrow> distance < minDistance)
           then nearestLoop pos rest (Some (planet, distance))
           else nearestLoop pos rest acc))"

definition getNearestPlanet :: "vec3 \<Rightarrow> mesh list \<Rightarrow> nearest option" where
  "getNearestPlanet pos planets = nearestLoop pos planets None"

subsection \<open>checkPlayerEnvironment\<close>

text \<open>Comparisons against a threshold that is \<open>NaN\<close> (\<open>None\<close>) are false.\<close>

definition js_gt :: "real \<Rightarrow> real option \<Rightarrow> bool" where
  "js_gt d t = (case t of None \<Rightarrow> False | Some t' \<Rightarrow> d > t')"

definition js_le :: "real \<Rightarrow> real option \<Rightarrow> bool" where
  "js_le d t = (case t of None \<Rightarrow> False | Some t' \<Rightarrow> d \<le> t')"

definition js_lt :: "real \<Rightarrow> real option \<Rightarrow> bool" where
  "js_lt d t = (case t of None \<Rightarrow> False | Some t' \<Rightarrow> d < t')"

definition groundThreshold :: real where
  "groundThreshold = 8 / 10"

text \<open>The ground test with hysteresis (source lines 71--79).\<close>

definition groundTest :: "Physics \<Rightarrow> real \<Rightarrow> bool" where
  "groundTest ph distance =
     (if lastZone ph = Some Surface
      then distance < groundThreshold + zoneHysteresis ph
      else distance < groundThreshold)"

text \<open>The zone proposed for this tick, before the switch delay (source lines
  93--108); \<open>atmosphereThreshold\<close> is \<open>None\<close> when the radius is \<open>undefined\<close>.\<close>

definition proposedZone ::
  "Physics \<Rightarrow> real \<Rightarrow> real option \<Rightarrow> bool \<Rightarrow> bool \<Rightarrow> bool \<Rightarrow> zone" where
  "proposedZone ph distance atmosphereThreshold onGround inAtm inUpper =
     (if onGround then Surface
      else if js_lt distance (map_option (\<lambda>t. t * (3 / 10)) atmosphereThreshold) then
        (if lastZone ph = Some Surface \<and> distance < groundThreshold + zoneHysteresis ph * 3
         then Surface else LowAtmosphere)
      else if inAtm then Atmosphere
      else if inUpper then UpperAtmosphere
      else DeepSpace)"

text \<open>The switch delay (source lines 110--125): the zone returned and the updated
  hysteresis state.\<close>

definition delayZone :: "Physics \<Rightarrow> zone \<Rightarrow> zone \<times> Physics" where
  "delayZone ph z =
     (case lastZone ph of
        None \<Rightarrow> (z, ph\<lparr>zoneSwitchDelay := 0, lastZone := Some z\<rparr>)
      | Some l \<Rightarrow>
          if l \<noteq> z then
            (let d = zoneSwitchDelay ph + 1 in
             if d < 3 then (l, ph\<lparr>zoneSwitchDelay := d, lastZone := Some l\<rparr>)
             else (z, ph\<lparr>zoneSwitchDelay := 0, lastZone := Some z\<rparr>))
          else (z, ph\<lparr>zoneSwitchDelay := 0, lastZone := Some z\<rparr>))"

text \<open>
  The classification of source lines 58--108 for the nearest planet found: the
  result record as it stands before the switch delay, its \<open>atmosphereZone\<close> being
  the zone proposed for this tick. \<open>planetRadius\<close> is \<open>None\<close> when the radius read is
  \<open>undefined\<close>; both thresholds are then \<open>NaN\<close>.
\<close>

definition classify :: "Physics \<Rightarrow> mesh \<Rightarrow> real \<Rightarrow> real option \<Rightarrow> EnvironmentResult" where
  "classify ph planet distance planetRadius =
     (let atmosphereThreshold = map_option (\<lambda>r. r * atmosphereRatio ph) planetRadius;
          outerAtmosphereThreshold =
            map_option (\<lambda>r. r * outerAtmosphereRatio ph) planetRadius;
          inDeepSpace = js_gt distance outerAtmosphereThreshold;
          inUpperAtmosphere = (js_le distance outerAtmosphereThreshold
                               \<and> js_gt distance atmosphereThreshold);
          inAtm = js_le distance atmosphereThreshold;
          onGround = groundTest ph distance;
          tf = (if inUpperAtmosphere then
                  (case (atmosphereThreshold, outerAtmosphereThreshold) of
                     (Some a, Some b) \<Rightarrow> (distance - a) / (b - a)
                   | _ \<Rightarrow> 0)
                else if inDeepSpace then 1 else 0)
      in \<lparr> inSpace = inDeepSpace, inTransition = Some inUpperAtmosphere,
           inAtmosphere = Some inAtm, env_onGround = onGround,
           env_nearest = Some (planet, distance),
           atmosphereZone = proposedZone ph distance atmosphereThreshold onGround inAtm
                              inUpperAtmosphere,
           transitionFactor = Some tf \<rparr>)"

text \<open>The result returned without a nearest planet (source lines 51--56): the
  fields \<open>inTransition\<close>, \<open>inAtmosphere\<close> and \<open>transitionFactor\<close> are left out.\<close>

definition deepSpaceResult :: EnvironmentResult where
  "deepSpaceResult =
     \<lparr> inSpace = True, inTransition = None, inAtmosphere = None,
       env_onGround = False, env_nearest = None,
       atmosphereZone = DeepSpace, transitionFactor = None \<rparr>"

definition checkPlayerEnvironment ::
  "Physics \<Rightarrow> vec3 \<Rightarrow> mesh list \<Rightarrow> (EnvironmentResult \<times> Physics) option" where
  "checkPlayerEnvironment ph playerPosition planets =
     (case getNearestPlanet playerPosition planets of
        None \<Rightarrow> None
      | Some None \<Rightarrow> Some (deepSpaceResult, ph)
      | Some (Some (planet, distance)) \<Rightarrow>
          (case parametersRadius planet of
             None \<Rightarrow> None
           | Some planetRadius \<Rightarrow>
               (let env = classify ph planet distance planetRadius;
                    (z, ph') = delayZone ph (atmosphereZone env)
                in Some (env\<lparr>atmosphereZone := z\<rparr>, ph'))))"

text \<open>The zones reported over consecutive ticks on one instance, for a fixed
  planet list and one avatar position per tick; a \<open>TypeError\<close> ends the run.\<close>

fun zoneTrace :: "Physics \<Rightarrow> mesh list \<Rightarrow> vec3 list \<Rightarrow> zone list" where
  "zoneTrace ph planets [] = []"
| "zoneTrace ph planets (p # ps) =
     (case checkPlayerEnvironment ph p planets of
        None \<Rightarrow> []
      | Some (env, ph') \<Rightarrow> atmosphereZone env # zoneTrace ph' planets ps)"

subsection \<open>getGravityForce\<close>

text \<open>
  The contribution of one body, \<open>None\<close> where the callback returns early: no
  geometry or a falsy radius (\<open>undefined\<close> or \<open>0\<close>), or a distance of at most
  \<open>0.1\<close> to the centre.
\<close>

definition bodyGravity :: "Physics \<Rightarrow> vec3 \<Rightarrow> real \<Rightarrow> mesh \<Rightarrow> vec3 option" where
  "bodyGravity ph pos mass body =
     (case optionalRadius body of
        None \<Rightarrow> None
      | Some radius \<Rightarrow>
          if radius = 0 then None
          else
            (let direction = normalize_v (subVectors (position body) pos);
                 distance = distanceTo pos (position body)
             in if distance \<le> 1 / 10 then None
                else
                  (let bodyMass = (if isSun body then 50 else radius);
                       clampedDistance = max distance (radius * (1 / 2));
                       force = gravitationalConstant ph * (bodyMass * mass)
                               / (clampedDistance * clampedDistance);
                       scaledForce = min force 20
                   in Some (multiplyScalar direction scaledForce))))"

fun gravityLoop :: "Physics \<Rightarrow> vec3 \<Rightarrow> real \<Rightarrow> mesh list \<Rightarrow> vec3 \<Rightarrow> vec3" where
  "gravityLoop ph pos mass [] gravityVector = gravityVector"
| "gravityLoop ph pos mass (body # rest) gravityVector =
     (case bodyGravity ph pos mass body of
        None \<Rightarrow> gravityLoop ph pos mass rest gravityVector
      | Some c \<Rightarrow> gravityLoop ph pos mass rest (addVectors gravityVector c))"

definition getGravityForce :: "Physics \<Rightarrow> vec3 \<Rightarrow> mesh list \<Rightarrow> real \<Rightarrow> vec3" where
  "getGravityForce ph pos celestialBodies mass =
     gravityLoop ph pos mass celestialBodies (Vector3 0 0 0)"

subsection \<open>handlePlanetCollisions\<close>

definition groundCollisionRadius :: real where
  "groundCollisionRadius = 1 / 2"

text \<open>
  The loop over the planets, returning the result with the corrected position and
  velocity (the source mutates both in place). \<open>None\<close> is the \<open>TypeError\<close> of a
  planet without \<open>parameters\<close>; nothing has been mutated when it is thrown, since
  the loop ends at the first correction.
\<close>

fun handlePlanetCollisions ::
  "vec3 \<Rightarrow> vec3 \<Rightarrow> mesh list \<Rightarrow> real \<Rightarrow> (CollisionResult \<times> vec3 \<times> vec3) option" where
  "handlePlanetCollisions playerPosition playerVelocity [] collisionRadiusArg =
     Some (\<lparr> col_onGround = False, collidedPlanet = None, surfaceNormal = None \<rparr>,
           playerPosition, playerVelocity)"
| "handlePlanetCollisions playerPosition playerVelocity (planet # rest) collisionRadiusArg =
     (case parametersRadius planet of
        None \<Rightarrow> None
      | Some None \<Rightarrow> handlePlanetCollisions playerPosition playerVelocity rest collisionRadiusArg
      | Some (Some planetRadius) \<Rightarrow>
          (let distanceToCenter = distanceTo playerPosition (position planet);
               distanceToSurface = distanceToCenter - planetRadius
           in if distanceToSurface < groundCollisionRadius then
                (let normal = normalize_v (subVectors playerPosition (position planet));
                     correctionDistance = groundCollisionRadius - distanceToSurface;
                     newPosition = addVectors playerPosition
                                     (multiplyScalar normal correctionDistance);
                     d = dot playerVelocity normal;
                     newVelocity =
                       (if d < 0
                        then multiplyScalar (subVectors playerVelocity (multiplyScalar normal d))
                               (8 / 10)
                        else playerVelocity)
                 in Some (\<lparr> col_onGround = True, collidedPlanet = Some planet,
                            surfaceNormal = Some normal \<rparr>, newPosition, newVelocity))
              else handlePlanetCollisions playerPosition playerVelocity rest collisionRadiusArg))"

subsection \<open>calculateUpDirection\<close>

definition calculateUpDirection :: "Physics \<Rightarrow> vec3 \<Rightarrow> mesh list \<Rightarrow> vec3 option" where
  "calculateUpDirection ph playerPosition planets =
     (case getNearestPlanet playerPosition planets of
        None \<Rightarrow> None
      | Some None \<Rightarrow> Some (Vector3 0 1 0)
      | Some (Some (planet, distance)) \<Rightarrow>
          if distance > alignmentDistance ph then Some (Vector3 0 1 0)
          else Some (normalize_v (subVectors playerPosition (position planet))))"

section \<open>The avatar and its inputs\<close>

text \<open>
  The fields of \<open>PlayerController\<close> that the simulation reads or writes, the
  \<open>ControlsState\<close>, the \<open>noclip\<close> flag of the game state, and the camera as the
  physics uses it: the vector \<open>getWorldDirection\<close> writes and the quaternion.
\<close>

record Player =
  player_position :: vec3
  player_velocity :: vec3
  player_onGround :: bool
  fuel :: real
  stamina :: real
  maxStamina :: real
  staminaRechargeRate :: real
  staminaDrainRate :: real
  isSprinting :: bool
  player_noclip :: bool
  alignmentNeeded :: real

record ControlsState =
  moveForward :: bool
  moveBackward :: bool
  moveLeft :: bool
  moveRight :: bool
  jump :: bool
  jetpack :: bool
  sprint :: bool
  downThrusters :: bool

record GameState =
  noclip :: bool

record Camera =
  worldDirection :: vec3
  cam_quaternion :: quaternion

record Alignment =
  al_upDirection :: vec3
  al_aligned :: "bool option"
  al_alignmentDistance :: "real option"
  al_alignmentSpeed :: "real option"

record PhysicsResult =
  environment :: EnvironmentResult
  collision :: CollisionResult
  alignment :: Alignment

subsection \<open>updateStamina\<close>

definition updateStamina :: "Player \<Rightarrow> ControlsState \<Rightarrow> real \<Rightarrow> Player" where
  "updateStamina player controls deltaTime =
     (if sprint controls \<and> stamina player > 0 then
        (let s = stamina player - staminaDrainRate player * deltaTime
         in player\<lparr>stamina := (if s < 0 then 0 else s)\<rparr>)
      else if \<not> sprint controls \<or> stamina player \<le> 0 then
        (let s = stamina player + staminaRechargeRate player * deltaTime;
             s' = (if s > maxStamina player then maxStamina player else s)
         in player\<lparr>stamina := s',
                   isSprinting := (if s' \<le> 0 then False else isSprinting player)\<rparr>)
      else player)"

subsection \<open>calculateMoveDirection\<close>

definition calculateMoveDirection ::
  "ControlsState \<Rightarrow> Camera \<Rightarrow> bool \<Rightarrow> bool \<Rightarrow> vec3" where
  "calculateMoveDirection controls camera inSpaceArg onGroundArg =
     (let forward0 = worldDirection camera;
          right0 = normalize_v (crossVectors forward0 (Vector3 0 1 0));
          upVector = applyQuaternion (Vector3 0 1 0) (cam_quaternion camera);
          forward = (if onGroundArg then normalize_v (projectOnPlane forward0 upVector)
                     else forward0);
          right = (if onGroundArg then normalize_v (crossVectors forward upVector)
                   else right0);
          m1 = (if moveForward controls then addVectors (Vector3 0 0 0) forward
                else Vector3 0 0 0);
          m2 = (if moveBackward controls then subVectors m1 forward else m1);
          m3 = (if moveRight controls then addVectors m2 right else m2);
          m4 = (if moveLeft controls then subVectors m3 right else m3)
      in m4)"

subsection \<open>updatePlayerPhysics\<close>

text \<open>The noclip branch (source lines 275--308).\<close>

definition noclipResult :: PhysicsResult where
  "noclipResult =
     \<lparr> environment = \<lparr> inSpace = True, inTransition = None, inAtmosphere = None,
                        env_onGround = False, env_nearest = None,
                        atmosphereZone = Noclip, transitionFactor = None \<rparr>,
       collision = \<lparr> col_onGround = False, collidedPlanet = None, surfaceNormal = None \<rparr>,
       alignment = \<lparr> al_upDirection = Vector3 0 1 0, al_aligned = Some False,
                      al_alignmentDistance = None, al_alignmentSpeed = None \<rparr> \<rparr>"

definition noclipMove :: "Physics \<Rightarrow> Player \<Rightarrow> ControlsState \<Rightarrow> real \<Rightarrow> Camera \<Rightarrow> Player" where
  "noclipMove ph player controls deltaTime camera =
     (let moveDirection = calculateMoveDirection controls camera True False;
          noclipSpeed0 = moveSpeed ph * 100;
          noclipSpeed = (if sprint controls then noclipSpeed0 * 3 else noclipSpeed0);
          newPosition =
            (if vlength moveDirection > 0
             then addVectors (player_position player)
                    (multiplyScalar (normalize_v moveDirection) (noclipSpeed * deltaTime))
             else player_position player)
      in player\<lparr>player_position := newPosition,
                player_velocity := Vector3 0 0 0,
                player_onGround := False\<rparr>)"

text \<open>
  The radius of the nearest planet as the regular branch reads it. A planet
  returned by \<open>getNearestPlanet\<close> always has a number as its radius; for any other
  value the update counts as failed (\<open>None\<close>). Without a nearest planet the
  radius defaults to 100 and the distance is \<open>Infinity\<close>, so the normalised
  altitude is \<open>Math.min(1, Infinity) = 1\<close>.
\<close>

definition nearestRadius :: "mesh \<Rightarrow> real option" where
  "nearestRadius planet =
     (case parametersRadius planet of Some (Some r) \<Rightarrow> Some r | _ \<Rightarrow> None)"

definition orZero :: "real option \<Rightarrow> real" where
  "orZero t = (case t of None \<Rightarrow> 0 | Some v \<Rightarrow> v)"

text \<open>The drag coefficient chosen by zone (source lines 322--350).\<close>

definition dragFor :: "Physics \<Rightarrow> EnvironmentResult \<Rightarrow> real option" where
  "dragFor ph env =
     (let spaceDrag = inSpaceDrag ph; atmosphereDrag = inAtmosphereDrag ph in
      if inSpace env then Some spaceDrag
      else if inTransition env = Some True then
        Some (spaceDrag + (atmosphereDrag - spaceDrag) * (1 - orZero (transitionFactor env)))
      else if \<not> env_onGround env then
        (case env_nearest env of
           None \<Rightarrow>
             Some (spaceDrag + (atmosphereDrag - spaceDrag) * (1 - 1 * (9 / 10)))
         | Some (planet, distanceFromSurface) \<Rightarrow>
             (case nearestRadius planet of
                None \<Rightarrow> None
              | Some planetRadius \<Rightarrow>
                  (let normalizedAltitude = min 1 (distanceFromSurface / (planetRadius * (1 / 4)))
                   in Some (spaceDrag
                            + (atmosphereDrag - spaceDrag) * (1 - normalizedAltitude * (9 / 10))))))
      else Some atmosphereDrag)"

definition applyDrag :: "real \<Rightarrow> real \<Rightarrow> Player \<Rightarrow> Player" where
  "applyDrag drag deltaTime player =
     player\<lparr>player_velocity :=
              multiplyScalar (player_velocity player)
                (1 - min drag ((5 / 100) * deltaTime / (16 / 1000)))\<rparr>"

text \<open>Input movement (source lines 355--376).\<close>

definition applyMovement ::
  "Physics \<Rightarrow> EnvironmentResult \<Rightarrow> ControlsState \<Rightarrow> Camera \<Rightarrow> real \<Rightarrow> Player \<Rightarrow> Player" where
  "applyMovement ph env controls camera deltaTime player =
     (let moveDirection =
            calculateMoveDirection controls camera (\<not> env_onGround env) (env_onGround env)
      in if vlength moveDirection > 0 then
           (let spaceSpeedFactor = 1 / 2;
                groundSpeedFactor = 1;
                speedFactor0 =
                  (if inTransition env = Some True
                   then groundSpeedFactor
                        + (spaceSpeedFactor - groundSpeedFactor) * orZero (transitionFactor env)
                   else if inSpace env then spaceSpeedFactor else groundSpeedFactor);
                speedFactor =
                  (if sprint controls \<and> stamina player > 0 \<and> \<not> inSpace env
                   then speedFactor0 * (3 / 2) else speedFactor0)
            in player\<lparr>player_velocity :=
                        addVectors (player_velocity player)
                          (multiplyScalar (normalize_v moveDirection)
                             (moveSpeed ph * deltaTime * speedFactor))\<rparr>)
         else player)"

text \<open>Gravity (source lines 378--418).\<close>

definition directionalGravity :: "Physics \<Rightarrow> EnvironmentResult \<Rightarrow> vec3 \<Rightarrow> real \<Rightarrow> vec3" where
  "directionalGravity ph env pos deltaTime =
     (case env_nearest env of
        Some (planet, distance) \<Rightarrow>
          multiplyScalar (normalize_v (subVectors (position planet) pos))
            (gravity ph * deltaTime)
      | None \<Rightarrow> Vector3 0 (- gravity ph * deltaTime) 0)"

definition gravityVectorFor ::
  "Physics \<Rightarrow> EnvironmentResult \<Rightarrow> vec3 \<Rightarrow> mesh list \<Rightarrow> real \<Rightarrow> vec3" where
  "gravityVectorFor ph env pos celestialBodies deltaTime =
     (if inSpace env \<and> inTransition env \<noteq> Some True then
        multiplyScalar (getGravityForce ph pos celestialBodies 1) deltaTime
      else if inTransition env = Some True then
        (let orbitalGravity = multiplyScalar (getGravityForce ph pos celestialBodies 1) deltaTime;
             dirGravity = directionalGravity ph env pos deltaTime
         in addVectors (multiplyScalar orbitalGravity (orZero (transitionFactor env)))
                       (multiplyScalar dirGravity (1 - orZero (transitionFactor env))))
      else directionalGravity ph env pos deltaTime)"

definition applyGravity ::
  "Physics \<Rightarrow> EnvironmentResult \<Rightarrow> mesh list \<Rightarrow> real \<Rightarrow> Player \<Rightarrow> Player" where
  "applyGravity ph env celestialBodies deltaTime player =
     (if \<not> env_onGround env
      then player\<lparr>player_velocity :=
                    addVectors (player_velocity player)
                      (gravityVectorFor ph env (player_position player) celestialBodies
                         deltaTime)\<rparr>
      else player)"

text \<open>Jetpack and down thrusters (source lines 420--464). \<open>None\<close> is a
  \<open>TypeError\<close> of \<open>calculateUpDirection\<close>, thrown before anything is written.\<close>

definition thrustNearPlanet :: "EnvironmentResult \<Rightarrow> bool" where
  "thrustNearPlanet env =
     (case env_nearest env of None \<Rightarrow> False | Some (planet, distance) \<Rightarrow> distance < 500)"

definition applyJetpack ::
  "Physics \<Rightarrow> EnvironmentResult \<Rightarrow> ControlsState \<Rightarrow> Camera \<Rightarrow> real \<Rightarrow> mesh list
   \<Rightarrow> Player \<Rightarrow> Player option" where
  "applyJetpack ph env controls camera deltaTime planets player =
     (if jetpack controls \<and> fuel player > 0 then
        (case (if thrustNearPlanet env
               then calculateUpDirection ph (player_position player) planets
               else Some (worldDirection camera)) of
           None \<Rightarrow> None
         | Some jetpackDirection \<Rightarrow>
             (let f = fuel player - 20 * deltaTime
              in Some (player\<lparr>player_velocity :=
                                addVectors (player_velocity player)
                                  (multiplyScalar jetpackDirection
                                     (jetpackForce ph * deltaTime)),
                              fuel := (if f < 0 then 0 else f)\<rparr>)))
      else Some player)"

definition applyDownThrusters ::
  "Physics \<Rightarrow> EnvironmentResult \<Rightarrow> ControlsState \<Rightarrow> Camera \<Rightarrow> real \<Rightarrow> mesh list
   \<Rightarrow> Player \<Rightarrow> Player option" where
  "applyDownThrusters ph env controls camera deltaTime planets player =
     (if downThrusters controls \<and> fuel player > 0 then
        (case (if thrustNearPlanet env
               then map_option negate (calculateUpDirection ph (player_position player) planets)
               else Some (negate (worldDirection camera))) of
           None \<Rightarrow> None
         | Some downDirection \<Rightarrow>
             (let f = fuel player - 15 * deltaTime
              in Some (player\<lparr>player_velocity :=
                                addVectors (player_velocity player)
                                  (multiplyScalar downDirection
                                     (jetpackForce ph * (8 / 10) * deltaTime)),
                              fuel := (if f < 0 then 0 else f)\<rparr>)))
      else Some player)"

text \<open>Position integration and ground friction after the collision pass (source
  lines 474--496).\<close>

definition integrateAndFriction :: "CollisionResult \<Rightarrow> vec3 \<Rightarrow> vec3 \<Rightarrow> real \<Rightarrow> Player \<Rightarrow> Player" where
  "integrateAndFriction col pos vel deltaTime player =
     (let newPosition = addVectors pos (multiplyScalar vel deltaTime);
          newVelocity =
            (if col_onGround col then
               (case surfaceNormal col of
                  None \<Rightarrow> vel
                | Some normal \<Rightarrow>
                    (let d = dot vel normal;
                         normalComponent = multiplyScalar normal d;
                         tangentialComponent = subVectors vel normalComponent
                     in multiplyScalar tangentialComponent (9 / 10)))
             else vel)
      in player\<lparr>player_position := newPosition,
                player_velocity := newVelocity,
                player_onGround := col_onGround col\<rparr>)"

text \<open>
  The whole tick. The avatar and the classifier state are mutated in place by
  the source, so the model returns both; the result is \<open>None\<close> when a
  \<open>TypeError\<close> ends the call, and the state is then the one reached so far.
\<close>

definition updatePlayerPhysics ::
  "Physics \<Rightarrow> Player \<Rightarrow> ControlsState \<Rightarrow> real \<Rightarrow> mesh list \<Rightarrow> mesh option \<Rightarrow> Camera
   \<Rightarrow> GameState \<Rightarrow> (Player \<times> Physics) \<times> PhysicsResult option" where
  "updatePlayerPhysics ph player controls deltaTime planets sun camera gameState =
     (let player1 = updateStamina player controls deltaTime in
      if noclip gameState then
        ((noclipMove ph player1 controls deltaTime camera, ph), Some noclipResult)
      else
        (let celestialBodies = planets @ (case sun of None \<Rightarrow> [] | Some s \<Rightarrow> [s]) in
         case calculateUpDirection ph (player_position player1) planets of
           None \<Rightarrow> ((player1, ph), None)
         | Some upDirection \<Rightarrow>
         (case checkPlayerEnvironment ph (player_position player1) planets of
           None \<Rightarrow> ((player1, ph), None)
         | Some (env, ph') \<Rightarrow>
         (let player2 = player1\<lparr>player_onGround := env_onGround env\<rparr> in
          case dragFor ph' env of
            None \<Rightarrow> ((player2, ph'), None)
          | Some drag \<Rightarrow>
          (let player3 = applyDrag drag deltaTime player2;
               player4 = applyMovement ph' env controls camera deltaTime player3;
               player5 = applyGravity ph' env celestialBodies deltaTime player4
           in case applyJetpack ph' env controls camera deltaTime planets player5 of
                None \<Rightarrow> ((player5, ph'), None)
              | Some player6 \<Rightarrow>
              (case applyDownThrusters ph' env controls camera deltaTime planets player6 of
                None \<Rightarrow> ((player6, ph'), None)
              | Some player7 \<Rightarrow>
              (case handlePlanetCollisions (player_position player7) (player_velocity player7)
                      planets (collisionRadius ph') of
                None \<Rightarrow> ((player7, ph'), None)
              | Some (col, pos, vel) \<Rightarrow>
                  ((integrateAndFriction col pos vel deltaTime player7, ph'),
                   Some \<lparr> environment = env, collision = col,
                          alignment = \<lparr> al_upDirection = upDirection, al_aligned = None,
                                         al_alignmentDistance = Some (alignmentDistance ph'),
                                         al_alignmentSpeed = Some (alignmentSpeed ph') \<rparr> \<rparr>))))))))"

text \<open>\<open>n\<close> consecutive ticks with the same inputs.\<close>

fun ticks ::
  "nat \<Rightarrow> Physics \<Rightarrow> Player \<Rightarrow> ControlsState \<Rightarrow> real \<Rightarrow> mesh list \<Rightarrow> mesh option \<Rightarrow> Camera
   \<Rightarrow> GameState \<Rightarrow> Player \<times> Physics" where
  "ticks 0 ph player controls deltaTime planets sun camera gameState = (player, ph)"
| "ticks (Suc n) ph player controls deltaTime planets sun camera gameState =
     (case fst (updatePlayerPhysics ph player controls deltaTime planets sun camera gameState) of
        (player', ph') \<Rightarrow> ticks n ph' player' controls deltaTime planets sun camera gameState)"

section \<open>PlayerController.alignWithSurface\<close>

text \<open>
  The part of \<open>alignWithSurface\<close> that computes the alignment factor and stores it
  in \<open>alignmentNeeded\<close> (source lines 792--859) together with the value returned.
  The rest of the method turns the body quaternion toward the target and does not
  feed back into the factor; it is not modelled, and neither are the arguments
  \<open>upDirection\<close>, \<open>deltaTime\<close> and \<open>alignmentSpeed\<close>, which only it reads.
  \<open>window.game?.physics\<close> is the \<open>Physics option\<close>, \<open>window.game?.world?.planets || []\<close>
  the planet list.
\<close>

definition effectiveG :: "Physics option \<Rightarrow> real" where
  "effectiveG physics =
     (case physics of
        None \<Rightarrow> 100
      | Some ph \<Rightarrow> if gravitationalConstant ph = 0 then 100 else gravitationalConstant ph)"

text \<open>The accumulator is \<open>(nearestPlanet, minDistance, escapeVelocity, gravityFactor)\<close>,
  \<open>None\<close> while \<open>nearestPlanet\<close> is null. \<open>Math.sqrt\<close> of a negative number is
  \<open>NaN\<close>, which \<open>|| 0\<close> turns into 0.\<close>

fun influenceLoop ::
  "Physics option \<Rightarrow> vec3 \<Rightarrow> mesh list \<Rightarrow> (mesh \<times> real \<times> real \<times> real) option
   \<Rightarrow> (mesh \<times> real \<times> real \<times> real) option option" where
  "influenceLoop physics pos [] acc = Some acc"
| "influenceLoop physics pos (planet # rest) acc =
     (case geometry planet of
        None \<Rightarrow> influenceLoop physics pos rest acc
      | Some NoParameters \<Rightarrow> None
      | Some (Parameters None) \<Rightarrow> influenceLoop physics pos rest acc
      | Some (Parameters (Some r)) \<Rightarrow>
          (let planetMass = r * 10;
               distance = max (1 / 10) (distanceTo pos (position planet));
               surfaceDistance = distance - r;
               e = 2 * effectiveG physics * planetMass / distance;
               planetEscapeVel = (if e < 0 then 0 else sqrt e);
               planetGravityFactor = (effectiveG physics * planetMass) / (distance * distance)
           in if (case acc of None \<Rightarrow> True
                  | Some (_, minDistance, _, _) \<Rightarrow> surfaceDistance < minDistance)
              then influenceLoop physics pos rest
                     (Some (planet, surfaceDistance, planetEscapeVel, planetGravityFactor))
              else influenceLoop physics pos rest acc))"

definition alignFactorFor :: "real \<Rightarrow> real \<Rightarrow> real \<Rightarrow> bool \<Rightarrow> real" where
  "alignFactorFor gravityFactor escapeVelocity velocityMagnitude onGround =
     (let alignFactor0 = min 1 (gravityFactor * (1 / 10));
          velocityRatio = velocityMagnitude / max (1 / 10) escapeVelocity;
          alignFactor1 =
            (if velocityRatio > 1 / 2
             then alignFactor0 * max 0 (1 - (velocityRatio - 1 / 2) * 2)
             else alignFactor0)
      in if onGround then 1 else alignFactor1)"

definition alignWithSurface ::
  "Player \<Rightarrow> Physics option \<Rightarrow> mesh list \<Rightarrow> (Player \<times> bool) option" where
  "alignWithSurface player physics planets =
     (if player_noclip player then Some (player, False)
      else
        (case influenceLoop physics (player_position player) planets None of
           None \<Rightarrow> None
         | Some None \<Rightarrow> Some (player\<lparr>alignmentNeeded := 0\<rparr>, False)
         | Some (Some (nearestPlanet, minDistance, escapeVelocity, gravityFactor)) \<Rightarrow>
             if minDistance > 500 then Some (player\<lparr>alignmentNeeded := 0\<rparr>, False)
             else
               (let alignFactor = alignFactorFor gravityFactor escapeVelocity
                                    (vlength (player_velocity player)) (player_onGround player)
                in Some (player\<lparr>alignmentNeeded := alignFactor\<rparr>, alignFactor < 1 / 10))))"

section \<open>Example inputs\<close>

text \<open>A planet of radius 10 at the origin, a mesh whose geometry has no
  \<open>parameters\<close>, a mesh whose \<open>parameters\<close> have no radius, a planet of radius
  \<open>0.00001\<close>, and an avatar with the values the \<open>PlayerController\<close> constructor
  sets.\<close>

definition planetA :: mesh where
  "planetA = \<lparr> position = Vector3 0 0 0, geometry = Some (Parameters (Some 10)),
               isSun = False \<rparr>"

definition bareMesh :: mesh where
  "bareMesh = \<lparr> position = Vector3 0 0 0, geometry = Some NoParameters, isSun = False \<rparr>"

definition boxMesh :: mesh where
  "boxMesh = \<lparr> position = Vector3 5 0 0, geometry = Some (Parameters None), isSun = False \<rparr>"

definition tinyPlanet :: mesh where
  "tinyPlanet = \<lparr> position = Vector3 0 0 0, geometry = Some (Parameters (Some (1 / 100000))),
                  isSun = False \<rparr>"

definition newPlayer :: Player where
  "newPlayer =
     \<lparr> player_position = Vector3 0 0 0, player_velocity = Vector3 0 0 0,
       player_onGround = False, fuel = 100, stamina = 100, maxStamina = 100,
       staminaRechargeRate = 15, staminaDrainRate = 25, isSprinting = False,
       player_noclip = False, alignmentNeeded = 0 \<rparr>"

definition noInput :: ControlsState where
  "noInput =
     \<lparr> moveForward = False, moveBackward = False, moveLeft = False, moveRight = False,
       jump = False, jetpack = False, sprint = False, downThrusters = False \<rparr>"

definition lookAlongZ :: Camera where
  "lookAlongZ = \<lparr> worldDirection = Vector3 0 0 (-1), cam_quaternion = Quaternion 0 0 0 1 \<rparr>"

section \<open>Vector facts\<close>

lemma lengthSq_nonneg: "0 \<le> lengthSq v"
  by (simp add: lengthSq_def)

lemma vlength_nonneg: "0 \<le> vlength v"
  by (simp add: vlength_def lengthSq_nonneg)

lemma lengthSq_zero_iff: "lengthSq v = 0 \<longleftrightarrow> v = Vector3 0 0 0"
proof (cases v)
  case (Vector3 a b c)
  have "a * a + b * b + c * c = 0 \<longleftrightarrow> a = 0 \<and> b = 0 \<and> c = 0"
    by (simp add: add_nonneg_eq_0_iff)
  then show ?thesis
    using Vector3 by (simp add: lengthSq_def)
qed

lemma vlength_zero_iff: "vlength v = 0 \<longleftrightarrow> v = Vector3 0 0 0"
  by (simp add: vlength_def lengthSq_zero_iff)

lemma vlength_pos: "v \<noteq> Vector3 0 0 0 \<Longrightarrow> 0 < vlength v"
  using vlength_nonneg [of v] vlength_zero_iff [of v] by linarith

lemma lengthSq_multiplyScalar: "lengthSq (multiplyScalar v s) = s * s * lengthSq v"
  by (simp add: lengthSq_def multiplyScalar_def algebra_simps)

lemma vlength_multiplyScalar: "vlength (multiplyScalar v s) = \<bar>s\<bar> * vlength v"
  by (simp add: vlength_def lengthSq_multiplyScalar real_sqrt_mult)

lemma vlength_normalize: "v \<noteq> Vector3 0 0 0 \<Longrightarrow> vlength (normalize_v v) = 1"
  using vlength_nonneg [of v]
  by (simp add: normalize_v_def vlength_multiplyScalar vlength_zero_iff)

lemma normalize_zero: "normalize_v (Vector3 0 0 0) = Vector3 0 0 0"
  by (simp add: normalize_v_def multiplyScalar_def)

lemma vlength_normalize_le: "vlength (normalize_v v) \<le> 1"
proof (cases "v = Vector3 0 0 0")
  case True
  then show ?thesis
    by (simp add: normalize_zero vlength_def lengthSq_def)
next
  case False
  then show ?thesis
    by (simp add: vlength_normalize)
qed

lemma distanceTo_vlength: "distanceTo a b = vlength (subVectors a b)"
  by (simp add: distanceTo_def vlength_def)

lemma addVectors_zero_left: "addVectors (Vector3 0 0 0) v = v"
  by (cases v) (simp add: addVectors_def)



section \<open>Evaluations on the example inputs\<close>

lemma collide_planetA:
  "handlePlanetCollisions (Vector3 0 10 0) (Vector3 0 (-1) 0) [planetA] c
   = Some (\<lparr> col_onGround = True, collidedPlanet = Some planetA,
              surfaceNormal = Some (Vector3 0 1 0) \<rparr>, Vector3 0 (21 / 2) 0, Vector3 0 0 0)"
  by (simp add: planetA_def parametersRadius_def distanceTo_def lengthSq_def subVectors_def
      groundCollisionRadius_def normalize_v_def vlength_def multiplyScalar_def addVectors_def
      dot_def)

lemma collide_planetA_again:
  "handlePlanetCollisions (Vector3 0 (21 / 2) 0) (Vector3 0 0 0) [planetA] c
   = Some (\<lparr> col_onGround = False, collidedPlanet = None, surfaceNormal = None \<rparr>,
           Vector3 0 (21 / 2) 0, Vector3 0 0 0)"
  by (simp add: planetA_def parametersRadius_def distanceTo_def lengthSq_def subVectors_def
      groundCollisionRadius_def real_sqrt_divide)

lemma planetA_radius: "optionalRadius planetA = Some 10"
  by (simp add: planetA_def optionalRadius_def)

lemma planetA_distance: "distanceTo (Vector3 0 20 0) (position planetA) = 20"
  by (simp add: planetA_def distanceTo_def lengthSq_def subVectors_def)

section \<open>Collision resolution\<close>

lemma grounded_after_correction:
  "map_option (env_onGround \<circ> fst)
     (checkPlayerEnvironment Physics_constructor (Vector3 0 (21 / 2) 0) [planetA])
   = Some True"
  by (simp add: checkPlayerEnvironment_def getNearestPlanet_def parametersRadius_def
      planetA_def distanceTo_def lengthSq_def subVectors_def real_sqrt_divide classify_def
      groundTest_def groundThreshold_def delayZone_def Physics_constructor_def Let_def
      split: prod.splits)

text \<open>
  Claim C1 fails on the code. The avatar stands on the planet of radius 10 at
  height 10 and moves down. The first call of \<open>handlePlanetCollisions\<close> detects
  the collision, reports \<open>onGround = true\<close> and lifts the avatar to height 10.5,
  the radius plus the threshold 0.5. The second call, on the corrected position
  and velocity, compares the surface distance 0.5 with the threshold by \<open><\<close> and
  reports \<open>onGround = false\<close> with no collided planet, where the claim says
  \<open>onGround = true\<close>. At the same corrected position \<open>checkPlayerEnvironment\<close>
  does report \<open>onGround = true\<close>. Every number of this run is exact in binary
  floating point.
\<close>

theorem collision_second_call_not_grounded:
  "handlePlanetCollisions (Vector3 0 10 0) (Vector3 0 (-1) 0) [planetA] 2
     = Some (\<lparr> col_onGround = True, collidedPlanet = Some planetA,
                surfaceNormal = Some (Vector3 0 1 0) \<rparr>, Vector3 0 (21 / 2) 0, Vector3 0 0 0)
   \<and> handlePlanetCollisions (Vector3 0 (21 / 2) 0) (Vector3 0 0 0) [planetA] 2
     = Some (\<lparr> col_onGround = False, collidedPlanet = None, surfaceNormal = None \<rparr>,
             Vector3 0 (21 / 2) 0, Vector3 0 0 0)
   \<and> map_option (env_onGround \<circ> fst)
         (checkPlayerEnvironment Physics_constructor (Vector3 0 (21 / 2) 0) [planetA])
     = Some True"
  using collide_planetA [of 2] collide_planetA_again [of 2] grounded_after_correction
  by simp

section \<open>Gravity\<close>

lemma bodyGravity_cap:
  assumes "0 \<le> gravitationalConstant ph" and "0 \<le> mass"
    and "\<And>r. optionalRadius body = Some r \<Longrightarrow> 0 \<le> r"
    and "bodyGravity ph pos mass body = Some c"
  shows "vlength c \<le> 20"
proof -
  from assms(4) obtain radius where rad: "optionalRadius body = Some radius"
    by (auto simp: bodyGravity_def split: option.splits)
  define bodyMass where "bodyMass = (if isSun body then 50 else radius)"
  define cd where "cd = max (distanceTo pos (position body)) (radius * (1 / 2))"
  define force where "force = gravitationalConstant ph * (bodyMass * mass) / (cd * cd)"
  have c: "c = multiplyScalar (normalize_v (subVectors (position body) pos)) (min force 20)"
    using assms(4) rad
    by (auto simp: bodyGravity_def Let_def force_def cd_def bodyMass_def split: if_splits)
  have "0 \<le> bodyMass"
    using assms(3) [OF rad] by (simp add: bodyMass_def)
  then have "0 \<le> force"
    using assms(1,2) by (simp add: force_def)
  then have "\<bar>min force 20\<bar> \<le> 20"
    by simp
  moreover have "\<bar>min force 20\<bar> * vlength (normalize_v (subVectors (position body) pos))
                 \<le> \<bar>min force 20\<bar> * 1"
    by (rule mult_left_mono) (simp_all add: vlength_normalize_le)
  ultimately show ?thesis
    by (simp add: c vlength_multiplyScalar)
qed

lemma getGravityForce_single:
  "getGravityForce ph pos [body] mass
   = (case bodyGravity ph pos mass body of None \<Rightarrow> Vector3 0 0 0 | Some c \<Rightarrow> c)"
  by (simp add: getGravityForce_def addVectors_zero_left split: option.splits)

text \<open>
  Claim C3. The contribution of a single body to \<open>getGravityForce\<close> never has a
  magnitude above 20, however close the position is to the body, and so the
  acceleration returned for a one-element body list has magnitude at most 20.
  The bodies are spheres (a radius that is present is not negative), and the
  gravitational constant and the \<open>mass\<close> argument are not negative, as with the
  constructor's 100 and the default 1.
\<close>

theorem gravity_cap:
  assumes "0 \<le> gravitationalConstant ph" and "0 \<le> mass"
    and "\<And>r. optionalRadius body = Some r \<Longrightarrow> 0 \<le> r"
  shows "(\<forall>c. bodyGravity ph pos mass body = Some c \<longrightarrow> vlength c \<le> 20)
         \<and> vlength (getGravityForce ph pos [body] mass) \<le> 20"
proof -
  have a: "\<forall>c. bodyGravity ph pos mass body = Some c \<longrightarrow> vlength c \<le> 20"
    using bodyGravity_cap [OF assms] by blast
  have "vlength (getGravityForce ph pos [body] mass) \<le> 20"
  proof (cases "bodyGravity ph pos mass body")
    case None
    then show ?thesis
      by (simp add: getGravityForce_single vlength_def lengthSq_def)
  next
    case (Some c)
    then show ?thesis
      using a by (simp add: getGravityForce_single)
  qed
  with a show ?thesis by blast
qed

lemma gravity_at_surface:
  "bodyGravity Physics_constructor (Vector3 0 10 0) 1 planetA = Some (Vector3 0 (-10) 0)"
  by (simp add: bodyGravity_def planetA_def optionalRadius_def Physics_constructor_def
      distanceTo_def lengthSq_def subVectors_def normalize_v_def vlength_def multiplyScalar_def)

theorem gravity_cap_witness:
  "0 \<le> gravitationalConstant Physics_constructor \<and> (0::real) \<le> 1
   \<and> optionalRadius planetA = Some 10
   \<and> bodyGravity Physics_constructor (Vector3 0 10 0) 1 planetA = Some (Vector3 0 (-10) 0)
   \<and> vlength (Vector3 0 (-10) 0) \<le> 20
   \<and> vlength (getGravityForce Physics_constructor (Vector3 0 10 0) [planetA] 1) \<le> 20"
proof -
  have g: "0 \<le> gravitationalConstant Physics_constructor"
    by (simp add: Physics_constructor_def)
  have r: "\<And>r. optionalRadius planetA = Some r \<Longrightarrow> 0 \<le> r"
    by (simp add: planetA_radius)
  show ?thesis
    using gravity_cap [where mass = 1 and pos = "Vector3 0 10 0" and body = planetA, OF g _ r] g
      gravity_at_surface planetA_radius
    by simp
qed



section \<open>No planet in range\<close>

lemma nearestLoop_no_planet:
  "nearestLoop pos planets acc = Some None
   \<longleftrightarrow> acc = None \<and> (\<forall>p\<in>set planets. parametersRadius p = Some None)"
  by (induction planets arbitrary: acc) (auto simp: Let_def split: option.splits)

lemma nearestLoop_throws:
  "nearestLoop pos planets acc = None \<longleftrightarrow> (\<exists>p\<in>set planets. parametersRadius p = None)"
  by (induction planets arbitrary: acc) (auto simp: Let_def split: option.splits)

lemma getNearestPlanet_no_planet:
  "getNearestPlanet pos planets = Some None
   \<longleftrightarrow> (\<forall>p\<in>set planets. parametersRadius p = Some None)"
  by (simp add: getNearestPlanet_def nearestLoop_no_planet)

lemma classify_far:
  assumes "0 \<le> r" and "0 \<le> atmosphereRatio ph"
    and "atmosphereRatio ph \<le> outerAtmosphereRatio ph" and "0 \<le> zoneHysteresis ph"
    and "r * outerAtmosphereRatio ph < d" and "groundThreshold + zoneHysteresis ph \<le> d"
  shows "classify ph planet d (Some r)
         = \<lparr> inSpace = True, inTransition = Some False, inAtmosphere = Some False,
             env_onGround = False, env_nearest = Some (planet, d),
             atmosphereZone = DeepSpace, transitionFactor = Some 1 \<rparr>"
proof -
  have a: "r * atmosphereRatio ph \<le> r * outerAtmosphereRatio ph"
    using assms(1,3) by (rule mult_left_mono [rotated])
  have b: "0 \<le> r * atmosphereRatio ph"
    using assms(1,2) by simp
  have lt: "r * atmosphereRatio ph < d"
    using a assms(5) by linarith
  have low: "\<not> d < r * atmosphereRatio ph * (3 / 10)"
    using b lt by linarith
  have g: "\<not> groundTest ph d"
    using assms(4,6) by (simp add: groundTest_def)
  show ?thesis
    using assms(5) lt low g
    by (simp add: classify_def proposedZone_def js_gt_def js_le_def js_lt_def)
qed

lemma far_planet_result:
  assumes "getNearestPlanet pos planets = Some (Some (planet, d))"
    and "parametersRadius planet = Some (Some r)"
    and "0 \<le> r" and "0 \<le> atmosphereRatio ph"
    and "atmosphereRatio ph \<le> outerAtmosphereRatio ph" and "0 \<le> zoneHysteresis ph"
    and "r * outerAtmosphereRatio ph < d" and "groundThreshold + zoneHysteresis ph \<le> d"
  shows "\<exists>env ph'. checkPlayerEnvironment ph pos planets = Some (env, ph')
           \<and> delayZone ph DeepSpace = (atmosphereZone env, ph')
           \<and> inSpace env \<and> transitionFactor env = Some 1 \<and> \<not> env_onGround env"
  using assms(1,2) classify_far [OF assms(3-8)]
  by (simp add: checkPlayerEnvironment_def Let_def split: prod.splits)

lemma delayZone_accepts:
  assumes "lastZone ph = None \<or> lastZone ph = Some z \<or> 3 \<le> zoneSwitchDelay ph + 1"
  shows "fst (delayZone ph z) = z"
  using assms by (auto simp: delayZone_def Let_def split: option.splits)

lemma planetA_far:
  "getNearestPlanet (Vector3 0 100 0) [planetA] = Some (Some (planetA, 90))"
  by (simp add: getNearestPlanet_def parametersRadius_def planetA_def distanceTo_def
      lengthSq_def subVectors_def)

text \<open>
  Claim C2 as stated fails in three places. With an empty planet list the
  result carries no \<open>transitionFactor\<close> at all, so it is not 1. With the planet of
  radius 10 far away (surface distance 90) but \<open>surface\<close> stored from the tick
  before, the switch delay returns \<open>surface\<close>, not deep-space. With the planet of
  radius 0.00001 at surface distance 0.49999, far beyond its outer threshold, the
  fixed ground threshold 0.8 gives \<open>onGround = true\<close>.
\<close>

theorem no_planet_in_range_counterexample:
  "checkPlayerEnvironment Physics_constructor (Vector3 0 0 0) []
     = Some (deepSpaceResult, Physics_constructor)
   \<and> transitionFactor deepSpaceResult \<noteq> Some 1
   \<and> map_option (atmosphereZone \<circ> fst)
         (checkPlayerEnvironment (Physics_constructor\<lparr>lastZone := Some Surface\<rparr>)
            (Vector3 0 100 0) [planetA])
     = Some Surface
   \<and> map_option (inSpace \<circ> fst)
         (checkPlayerEnvironment Physics_constructor (Vector3 0 (1 / 2) 0) [tinyPlanet])
     = Some True
   \<and> map_option (env_onGround \<circ> fst)
         (checkPlayerEnvironment Physics_constructor (Vector3 0 (1 / 2) 0) [tinyPlanet])
     = Some True"
proof -
  have a: "checkPlayerEnvironment Physics_constructor (Vector3 0 0 0) []
           = Some (deepSpaceResult, Physics_constructor)"
    by (simp add: checkPlayerEnvironment_def getNearestPlanet_def)
  have b: "transitionFactor deepSpaceResult \<noteq> Some 1"
    by (simp add: deepSpaceResult_def)
  have c: "map_option (atmosphereZone \<circ> fst)
         (checkPlayerEnvironment (Physics_constructor\<lparr>lastZone := Some Surface\<rparr>)
            (Vector3 0 100 0) [planetA])
     = Some Surface"
    using planetA_far
    by (simp add: checkPlayerEnvironment_def parametersRadius_def planetA_def classify_def
        groundTest_def groundThreshold_def proposedZone_def js_gt_def js_le_def js_lt_def
        delayZone_def Physics_constructor_def Let_def split: prod.splits)
  have d: "map_option (inSpace \<circ> fst)
         (checkPlayerEnvironment Physics_constructor (Vector3 0 (1 / 2) 0) [tinyPlanet])
     = Some True
   \<and> map_option (env_onGround \<circ> fst)
         (checkPlayerEnvironment Physics_constructor (Vector3 0 (1 / 2) 0) [tinyPlanet])
     = Some True"
    by (simp add: checkPlayerEnvironment_def getNearestPlanet_def parametersRadius_def
        tinyPlanet_def distanceTo_def lengthSq_def subVectors_def real_sqrt_divide
        classify_def groundTest_def groundThreshold_def js_gt_def js_le_def
        delayZone_def Physics_constructor_def Let_def split: prod.splits)
  from a b c d show ?thesis
    by simp
qed

text \<open>
  Claim C2, amended. When the planet list is empty, \<open>checkPlayerEnvironment\<close>
  returns zone = deep-space, \<open>inSpace = true\<close> and \<open>onGround = false\<close>, leaves the
  hysteresis state untouched and leaves \<open>transitionFactor\<close> undefined. When the
  nearest planet is out of range, its surface distance lying beyond its
  outer-atmosphere threshold and beyond the ground band (0.8 plus the
  hysteresis), it returns \<open>transitionFactor = 1\<close>, \<open>inSpace = true\<close> and
  \<open>onGround = false\<close>, and it proposes zone deep-space: the zone returned is
  deep-space at once when the stored zone is null or deep-space or the delay
  counter reaches 3, and the stored zone while the switch delay lasts. The planet
  is a sphere (radius not negative) and the ratios are ordered as in the
  constructor (\<open>0 \<le> atmosphereRatio \<le> outerAtmosphereRatio\<close>).
\<close>

theorem no_planet_in_range:
  "checkPlayerEnvironment ph pos [] = Some (deepSpaceResult, ph)
   \<and> atmosphereZone deepSpaceResult = DeepSpace \<and> inSpace deepSpaceResult
   \<and> \<not> env_onGround deepSpaceResult \<and> transitionFactor deepSpaceResult = None
   \<and> (getNearestPlanet pos planets = Some (Some (planet, d))
        \<and> parametersRadius planet = Some (Some r)
        \<and> 0 \<le> r \<and> 0 \<le> atmosphereRatio ph
        \<and> atmosphereRatio ph \<le> outerAtmosphereRatio ph \<and> 0 \<le> zoneHysteresis ph
        \<and> r * outerAtmosphereRatio ph < d \<and> groundThreshold + zoneHysteresis ph \<le> d
        \<longrightarrow>
        (\<exists>env ph'. checkPlayerEnvironment ph pos planets = Some (env, ph')
           \<and> delayZone ph DeepSpace = (atmosphereZone env, ph')
           \<and> inSpace env \<and> transitionFactor env = Some 1 \<and> \<not> env_onGround env
           \<and> (lastZone ph = None \<or> lastZone ph = Some DeepSpace
                \<or> 3 \<le> zoneSwitchDelay ph + 1 \<longrightarrow> atmosphereZone env = DeepSpace)))"
proof -
  have e: "checkPlayerEnvironment ph pos [] = Some (deepSpaceResult, ph)"
    by (simp add: checkPlayerEnvironment_def getNearestPlanet_def)
  have f: "atmosphereZone deepSpaceResult = DeepSpace \<and> inSpace deepSpaceResult
           \<and> \<not> env_onGround deepSpaceResult \<and> transitionFactor deepSpaceResult = None"
    by (simp add: deepSpaceResult_def)
  have g: "getNearestPlanet pos planets = Some (Some (planet, d))
        \<and> parametersRadius planet = Some (Some r)
        \<and> 0 \<le> r \<and> 0 \<le> atmosphereRatio ph
        \<and> atmosphereRatio ph \<le> outerAtmosphereRatio ph \<and> 0 \<le> zoneHysteresis ph
        \<and> r * outerAtmosphereRatio ph < d \<and> groundThreshold + zoneHysteresis ph \<le> d
        \<longrightarrow>
        (\<exists>env ph'. checkPlayerEnvironment ph pos planets = Some (env, ph')
           \<and> delayZone ph DeepSpace = (atmosphereZone env, ph')
           \<and> inSpace env \<and> transitionFactor env = Some 1 \<and> \<not> env_onGround env
           \<and> (lastZone ph = None \<or> lastZone ph = Some DeepSpace
                \<or> 3 \<le> zoneSwitchDelay ph + 1 \<longrightarrow> atmosphereZone env = DeepSpace))"
  proof
    assume h: "getNearestPlanet pos planets = Some (Some (planet, d))
        \<and> parametersRadius planet = Some (Some r)
        \<and> 0 \<le> r \<and> 0 \<le> atmosphereRatio ph
        \<and> atmosphereRatio ph \<le> outerAtmosphereRatio ph \<and> 0 \<le> zoneHysteresis ph
        \<and> r * outerAtmosphereRatio ph < d \<and> groundThreshold + zoneHysteresis ph \<le> d"
    then obtain env ph' where
      c: "checkPlayerEnvironment ph pos planets = Some (env, ph')"
      and z: "delayZone ph DeepSpace = (atmosphereZone env, ph')"
      and i: "inSpace env" "transitionFactor env = Some 1" "\<not> env_onGround env"
      using far_planet_result [of pos planets planet d r ph] by blast
    have "lastZone ph = None \<or> lastZone ph = Some DeepSpace
          \<or> 3 \<le> zoneSwitchDelay ph + 1 \<longrightarrow> atmosphereZone env = DeepSpace"
      using delayZone_accepts [of ph DeepSpace] z by auto
    then show "\<exists>env ph'. checkPlayerEnvironment ph pos planets = Some (env, ph')
           \<and> delayZone ph DeepSpace = (atmosphereZone env, ph')
           \<and> inSpace env \<and> transitionFactor env = Some 1 \<and> \<not> env_onGround env
           \<and> (lastZone ph = None \<or> lastZone ph = Some DeepSpace
                \<or> 3 \<le> zoneSwitchDelay ph + 1 \<longrightarrow> atmosphereZone env = DeepSpace)"
      using c z i by blast
  qed
  from e f g show ?thesis
    by (intro conjI) simp_all
qed

theorem no_planet_in_range_witness:
  "getNearestPlanet (Vector3 0 100 0) [planetA] = Some (Some (planetA, 90))
   \<and> parametersRadius planetA = Some (Some 10)
   \<and> 10 * outerAtmosphereRatio Physics_constructor < 90
   \<and> groundThreshold + zoneHysteresis Physics_constructor \<le> 90
   \<and> lastZone Physics_constructor = None
   \<and> (\<exists>env ph'. checkPlayerEnvironment Physics_constructor (Vector3 0 100 0) [planetA]
                    = Some (env, ph')
          \<and> inSpace env \<and> transitionFactor env = Some 1 \<and> \<not> env_onGround env
          \<and> atmosphereZone env = DeepSpace)
   \<and> checkPlayerEnvironment Physics_constructor (Vector3 0 100 0) []
       = Some (deepSpaceResult, Physics_constructor)
   \<and> transitionFactor deepSpaceResult = None"
proof -
  have r: "parametersRadius planetA = Some (Some 10)"
    by (simp add: planetA_def parametersRadius_def)
  have h: "(0::real) \<le> 10" "0 \<le> atmosphereRatio Physics_constructor"
    "atmosphereRatio Physics_constructor \<le> outerAtmosphereRatio Physics_constructor"
    "0 \<le> zoneHysteresis Physics_constructor"
    "10 * outerAtmosphereRatio Physics_constructor < 90"
    "groundThreshold + zoneHysteresis Physics_constructor \<le> 90"
    "lastZone Physics_constructor = None"
    by (simp_all add: Physics_constructor_def groundThreshold_def)
  show ?thesis
    using no_planet_in_range [where ph = Physics_constructor and pos = "Vector3 0 100 0"
        and planets = "[planetA]" and planet = planetA and d = 90 and r = 10]
      planetA_far r h
    by auto
qed

section \<open>Bodies without a radius\<close>

text \<open>
  Claim C9 fails on the code for a mesh whose geometry has no \<open>parameters\<close>
  object. \<open>getGravityForce\<close> reads the radius through \<open>?.parameters?.radius\<close> and
  skips the body; \<open>getNearestPlanet\<close> and \<open>handlePlanetCollisions\<close> read
  \<open>geometry.parameters.radius\<close> unguarded and throw a \<open>TypeError\<close>, and with them
  \<open>checkPlayerEnvironment\<close>, while on the list without that body the
  classification returns deep space.
\<close>

theorem missing_parameters_throws:
  "getGravityForce ph pos [bareMesh] mass = getGravityForce ph pos [] mass
   \<and> getNearestPlanet pos [bareMesh] = None
   \<and> getNearestPlanet pos [] = Some None
   \<and> checkPlayerEnvironment ph pos [bareMesh] = None
   \<and> checkPlayerEnvironment ph pos [] = Some (deepSpaceResult, ph)
   \<and> handlePlanetCollisions pos vel [bareMesh] c = None
   \<and> handlePlanetCollisions pos vel [] c
       = Some (\<lparr> col_onGround = False, collidedPlanet = None, surfaceNormal = None \<rparr>,
               pos, vel)"
  by (simp add: getGravityForce_def bodyGravity_def optionalRadius_def getNearestPlanet_def
      checkPlayerEnvironment_def parametersRadius_def bareMesh_def)

lemma nearestLoop_skip:
  "parametersRadius b = Some None \<Longrightarrow>
   nearestLoop pos planets acc = nearestLoop pos (removeAll b planets) acc"
  by (induction planets arbitrary: acc) (auto simp: Let_def split: option.splits)

lemma gravityLoop_skip:
  "bodyGravity ph pos mass b = None \<Longrightarrow>
   gravityLoop ph pos mass bodies g = gravityLoop ph pos mass (removeAll b bodies) g"
  by (induction bodies arbitrary: g) (auto split: option.splits)

lemma collisions_skip:
  "parametersRadius b = Some None \<Longrightarrow>
   handlePlanetCollisions pos vel planets c
   = handlePlanetCollisions pos vel (removeAll b planets) c"
  by (induction planets) (auto simp: Let_def split: option.splits)

text \<open>
  A body whose \<open>parameters\<close> exist but hold no radius (the radius read is
  \<open>undefined\<close>) is skipped by the nearest-planet search, the classification, the
  gravity sum and the collision pass: each returns what it returns on the list
  without that body. The distance computed from the missing radius is \<open>NaN\<close>, and
  no comparison with \<open>NaN\<close> holds.
\<close>

theorem undefined_radius_skipped:
  assumes "parametersRadius b = Some None"
  shows "getNearestPlanet pos planets = getNearestPlanet pos (removeAll b planets)
    \<and> checkPlayerEnvironment ph pos planets = checkPlayerEnvironment ph pos (removeAll b planets)
    \<and> getGravityForce ph pos planets mass = getGravityForce ph pos (removeAll b planets) mass
    \<and> handlePlanetCollisions pos vel planets c
        = handlePlanetCollisions pos vel (removeAll b planets) c"
proof -
  have "optionalRadius b = None"
    using assms by (auto simp: parametersRadius_def optionalRadius_def split: option.splits geometry.splits)
  then have g: "bodyGravity ph pos mass b = None"
    by (simp add: bodyGravity_def)
  have n: "getNearestPlanet pos planets = getNearestPlanet pos (removeAll b planets)"
    unfolding getNearestPlanet_def using assms by (rule nearestLoop_skip)
  have e: "checkPlayerEnvironment ph pos planets
           = checkPlayerEnvironment ph pos (removeAll b planets)"
    unfolding checkPlayerEnvironment_def n [symmetric] by (rule refl)
  have f: "getGravityForce ph pos planets mass
           = getGravityForce ph pos (removeAll b planets) mass"
    unfolding getGravityForce_def using g by (rule gravityLoop_skip)
  have h: "handlePlanetCollisions pos vel planets c
           = handlePlanetCollisions pos vel (removeAll b planets) c"
    using assms by (rule collisions_skip)
  from n e f h show ?thesis
    by (intro conjI)
qed

theorem undefined_radius_skipped_witness:
  "parametersRadius boxMesh = Some None
   \<and> getNearestPlanet (Vector3 0 20 0) [boxMesh, planetA] = Some (Some (planetA, 10))
   \<and> checkPlayerEnvironment Physics_constructor (Vector3 0 20 0) [boxMesh, planetA]
       = checkPlayerEnvironment Physics_constructor (Vector3 0 20 0) [planetA]
   \<and> getGravityForce Physics_constructor (Vector3 0 20 0) [boxMesh, planetA] 1
       = getGravityForce Physics_constructor (Vector3 0 20 0) [planetA] 1
   \<and> handlePlanetCollisions (Vector3 0 20 0) (Vector3 0 0 0) [boxMesh, planetA] 2
       = handlePlanetCollisions (Vector3 0 20 0) (Vector3 0 0 0) [planetA] 2"
proof -
  have b: "parametersRadius boxMesh = Some None"
    by (simp add: boxMesh_def parametersRadius_def)
  have ne: "planetA \<noteq> boxMesh"
    by (simp add: planetA_def boxMesh_def)
  have n: "getNearestPlanet (Vector3 0 20 0) [planetA] = Some (Some (planetA, 10))"
    using planetA_distance by (simp add: getNearestPlanet_def parametersRadius_def planetA_def)
  show ?thesis
    using undefined_radius_skipped [OF b, of "Vector3 0 20 0" "[boxMesh, planetA]"
        Physics_constructor 1 "Vector3 0 0 0" 2] b ne n
    by simp
qed

section \<open>The unused collision radius\<close>

lemma handlePlanetCollisions_arg:
  "handlePlanetCollisions pos vel planets r1 = handlePlanetCollisions pos vel planets r2"
  by (induction planets) (simp_all add: Let_def split: option.splits)

lemma delayZone_collisionRadius:
  "delayZone (ph\<lparr>collisionRadius := c\<rparr>) z
   = (case delayZone ph z of (z', ph') \<Rightarrow> (z', ph'\<lparr>collisionRadius := c\<rparr>))"
  by (simp add: delayZone_def Let_def split: option.splits)

lemma classify_collisionRadius:
  "classify (ph\<lparr>collisionRadius := c\<rparr>) planet d r = classify ph planet d r"
  by (simp add: classify_def groundTest_def proposedZone_def)

lemma checkPlayerEnvironment_collisionRadius:
  "checkPlayerEnvironment (ph\<lparr>collisionRadius := c\<rparr>) pos planets
   = map_option (\<lambda>(env, ph'). (env, ph'\<lparr>collisionRadius := c\<rparr>))
       (checkPlayerEnvironment ph pos planets)"
  by (simp add: checkPlayerEnvironment_def classify_collisionRadius delayZone_collisionRadius
      Let_def split: option.splits prod.splits)

lemma calculateUpDirection_collisionRadius:
  "calculateUpDirection (ph\<lparr>collisionRadius := c\<rparr>) pos planets
   = calculateUpDirection ph pos planets"
  by (simp add: calculateUpDirection_def split: option.splits)

lemma bodyGravity_collisionRadius:
  "bodyGravity (ph\<lparr>collisionRadius := c\<rparr>) pos mass body = bodyGravity ph pos mass body"
  by (simp add: bodyGravity_def Let_def split: option.splits)

lemma gravityLoop_collisionRadius:
  "gravityLoop (ph\<lparr>collisionRadius := c\<rparr>) pos mass bodies g = gravityLoop ph pos mass bodies g"
  by (induction bodies arbitrary: g)
     (simp_all add: bodyGravity_collisionRadius split: option.splits)

lemma phases_collisionRadius:
  "dragFor (ph\<lparr>collisionRadius := c\<rparr>) env = dragFor ph env"
  "applyMovement (ph\<lparr>collisionRadius := c\<rparr>) env controls camera dt pl
   = applyMovement ph env controls camera dt pl"
  "applyGravity (ph\<lparr>collisionRadius := c\<rparr>) env bodies dt pl = applyGravity ph env bodies dt pl"
  "applyJetpack (ph\<lparr>collisionRadius := c\<rparr>) env controls camera dt planets pl
   = applyJetpack ph env controls camera dt planets pl"
  "applyDownThrusters (ph\<lparr>collisionRadius := c\<rparr>) env controls camera dt planets pl
   = applyDownThrusters ph env controls camera dt planets pl"
  "noclipMove (ph\<lparr>collisionRadius := c\<rparr>) pl controls dt camera = noclipMove ph pl controls dt camera"
  by (simp_all add: dragFor_def applyMovement_def applyGravity_def gravityVectorFor_def
      directionalGravity_def getGravityForce_def gravityLoop_collisionRadius applyJetpack_def
      applyDownThrusters_def calculateUpDirection_collisionRadius noclipMove_def Let_def
      split: option.splits prod.splits)

lemma updatePlayerPhysics_collisionRadius:
  "updatePlayerPhysics (ph\<lparr>collisionRadius := c\<rparr>) player controls dt planets sun camera gs
   = (case updatePlayerPhysics ph player controls dt planets sun camera gs of
        ((pl, ph'), res) \<Rightarrow> ((pl, ph'\<lparr>collisionRadius := c\<rparr>), res))"
proof (cases "noclip gs")
  case True
  then show ?thesis
    by (simp add: updatePlayerPhysics_def phases_collisionRadius)
next
  case False
  have hp: "handlePlanetCollisions p v planets (collisionRadius q)
            = handlePlanetCollisions p v planets c" for p v and q :: Physics
    by (rule handlePlanetCollisions_arg)
  show ?thesis
    using False
    unfolding updatePlayerPhysics_def Let_def calculateUpDirection_collisionRadius
      checkPlayerEnvironment_collisionRadius
    by (auto simp: phases_collisionRadius hp split: option.splits prod.splits)
qed


lemma single_planet_threshold:
  assumes "parametersRadius planet = Some (Some r)"
  shows "\<exists>res p v. handlePlanetCollisions pos vel [planet] c = Some (res, p, v)
           \<and> col_onGround res = (distanceTo pos (position planet) - r < 1 / 2)"
  using assms by (simp add: Let_def groundCollisionRadius_def)

text \<open>
  Claim C10. \<open>handlePlanetCollisions\<close> does not depend on its \<open>collisionRadius\<close>
  argument: two runs that differ only in it return the same result, position and
  velocity, and the threshold that decides a collision is the constant 0.5. The
  caller passes the field \<open>collisionRadius\<close> of the instance (2 after
  construction), so a tick of \<open>updatePlayerPhysics\<close> is the same whatever that
  field holds.
\<close>

theorem collisionRadius_has_no_effect:
  "handlePlanetCollisions pos vel planets r1 = handlePlanetCollisions pos vel planets r2
   \<and> (parametersRadius planet = Some (Some r) \<longrightarrow>
        (\<exists>res p v. handlePlanetCollisions pos vel [planet] r1 = Some (res, p, v)
           \<and> col_onGround res = (distanceTo pos (position planet) - r < 1 / 2)))
   \<and> updatePlayerPhysics (ph\<lparr>collisionRadius := r1\<rparr>) player controls dt planets sun camera gs
       = (case updatePlayerPhysics ph player controls dt planets sun camera gs of
            ((pl, ph'), res) \<Rightarrow> ((pl, ph'\<lparr>collisionRadius := r1\<rparr>), res))"
proof (intro conjI impI)
  show "handlePlanetCollisions pos vel planets r1 = handlePlanetCollisions pos vel planets r2"
    by (rule handlePlanetCollisions_arg)
next
  assume "parametersRadius planet = Some (Some r)"
  then show "\<exists>res p v. handlePlanetCollisions pos vel [planet] r1 = Some (res, p, v)
           \<and> col_onGround res = (distanceTo pos (position planet) - r < 1 / 2)"
    by (rule single_planet_threshold)
next
  show "updatePlayerPhysics (ph\<lparr>collisionRadius := r1\<rparr>) player controls dt planets sun camera gs
       = (case updatePlayerPhysics ph player controls dt planets sun camera gs of
            ((pl, ph'), res) \<Rightarrow> ((pl, ph'\<lparr>collisionRadius := r1\<rparr>), res))"
    by (rule updatePlayerPhysics_collisionRadius)
qed

theorem collisionRadius_has_no_effect_witness:
  "handlePlanetCollisions (Vector3 0 10 0) (Vector3 0 (-1) 0) [planetA] 2
     = handlePlanetCollisions (Vector3 0 10 0) (Vector3 0 (-1) 0) [planetA] 1000
   \<and> parametersRadius planetA = Some (Some 10)
   \<and> (\<exists>res p v. handlePlanetCollisions (Vector3 0 10 0) (Vector3 0 (-1) 0) [planetA] 2
                   = Some (res, p, v)
          \<and> col_onGround res = (distanceTo (Vector3 0 10 0) (position planetA) - 10 < 1 / 2))
   \<and> updatePlayerPhysics (Physics_constructor\<lparr>collisionRadius := 2\<rparr>) newPlayer noInput
         (1 / 60) [planetA] None lookAlongZ \<lparr>noclip = False\<rparr>
       = (case updatePlayerPhysics Physics_constructor newPlayer noInput
                 (1 / 60) [planetA] None lookAlongZ \<lparr>noclip = False\<rparr> of
            ((pl, ph'), res) \<Rightarrow> ((pl, ph'\<lparr>collisionRadius := 2\<rparr>), res))"
proof -
  have r: "parametersRadius planetA = Some (Some 10)"
    by (simp add: planetA_def parametersRadius_def)
  show ?thesis
    using collisionRadius_has_no_effect [where pos = "Vector3 0 10 0"
        and vel = "Vector3 0 (-1) 0" and planets = "[planetA]" and ?r1.0 = 2 and ?r2.0 = 1000
        and planet = planetA and r = 10 and ph = Physics_constructor and player = newPlayer
        and controls = noInput and dt = "1 / 60" and sun = None and camera = lookAlongZ
        and gs = "\<lparr>noclip = False\<rparr>"] r
    by blast
qed

section \<open>Fuel and stamina\<close>

lemma updateStamina_bounds:
  assumes "0 \<le> dt" and "0 \<le> stamina p" and "stamina p \<le> maxStamina p"
    and "0 \<le> staminaDrainRate p" and "0 \<le> staminaRechargeRate p"
  shows "0 \<le> stamina (updateStamina p controls dt)
         \<and> stamina (updateStamina p controls dt) \<le> maxStamina p"
proof -
  have d: "0 \<le> staminaDrainRate p * dt" and r: "0 \<le> staminaRechargeRate p * dt"
    using assms by simp_all
  show ?thesis
    using assms(2,3) d r by (auto simp: updateStamina_def Let_def)
qed

lemma updateStamina_frame:
  "fuel (updateStamina p controls dt) = fuel p"
  "maxStamina (updateStamina p controls dt) = maxStamina p"
  "player_position (updateStamina p controls dt) = player_position p"
  by (simp_all add: updateStamina_def Let_def)

lemma noclipMove_frame:
  "fuel (noclipMove ph p controls dt camera) = fuel p"
  "stamina (noclipMove ph p controls dt camera) = stamina p"
  "maxStamina (noclipMove ph p controls dt camera) = maxStamina p"
  by (simp_all add: noclipMove_def Let_def)

lemma applyDrag_frame:
  "fuel (applyDrag drag dt p) = fuel p"
  "stamina (applyDrag drag dt p) = stamina p"
  "maxStamina (applyDrag drag dt p) = maxStamina p"
  by (simp_all add: applyDrag_def)

lemma applyMovement_frame:
  "fuel (applyMovement ph env controls camera dt p) = fuel p"
  "stamina (applyMovement ph env controls camera dt p) = stamina p"
  "maxStamina (applyMovement ph env controls camera dt p) = maxStamina p"
  by (simp_all add: applyMovement_def Let_def)

lemma applyGravity_frame:
  "fuel (applyGravity ph env bodies dt p) = fuel p"
  "stamina (applyGravity ph env bodies dt p) = stamina p"
  "maxStamina (applyGravity ph env bodies dt p) = maxStamina p"
  by (simp_all add: applyGravity_def)

lemma integrateAndFriction_frame:
  "fuel (integrateAndFriction col pos vel dt p) = fuel p"
  "stamina (integrateAndFriction col pos vel dt p) = stamina p"
  "maxStamina (integrateAndFriction col pos vel dt p) = maxStamina p"
  by (simp_all add: integrateAndFriction_def Let_def)

lemma applyJetpack_fields:
  assumes "applyJetpack ph env controls camera dt planets p = Some p'"
  shows "stamina p' = stamina p \<and> maxStamina p' = maxStamina p
         \<and> (0 \<le> fuel p \<longrightarrow> 0 \<le> fuel p')
         \<and> (jetpack controls \<and> fuel p = 1 \<and> 1 / 20 < dt \<longrightarrow> fuel p' = 0)"
  using assms by (auto simp: applyJetpack_def Let_def split: if_splits option.splits)

lemma applyDownThrusters_fields:
  assumes "applyDownThrusters ph env controls camera dt planets p = Some p'"
  shows "stamina p' = stamina p \<and> maxStamina p' = maxStamina p
         \<and> (0 \<le> fuel p \<longrightarrow> 0 \<le> fuel p')
         \<and> (fuel p = 0 \<longrightarrow> fuel p' = 0)"
  using assms by (auto simp: applyDownThrusters_def Let_def split: if_splits option.splits)

text \<open>What a tick leaves in \<open>stamina\<close>, \<open>maxStamina\<close> and \<open>fuel\<close>, whether it returns
  or throws.\<close>

lemma updatePlayerPhysics_stamina:
  "stamina (fst (fst (updatePlayerPhysics ph p controls dt planets sun camera gs)))
     = stamina (updateStamina p controls dt)
   \<and> maxStamina (fst (fst (updatePlayerPhysics ph p controls dt planets sun camera gs)))
     = maxStamina p"
  unfolding updatePlayerPhysics_def Let_def
  by (auto simp: updateStamina_frame noclipMove_frame applyDrag_frame applyMovement_frame
      applyGravity_frame integrateAndFriction_frame
      dest!: applyJetpack_fields applyDownThrusters_fields
      split: option.splits prod.splits)

lemma updatePlayerPhysics_fuel:
  assumes "0 \<le> fuel p"
  shows "0 \<le> fuel (fst (fst (updatePlayerPhysics ph p controls dt planets sun camera gs)))"
  using assms unfolding updatePlayerPhysics_def Let_def
  by (auto simp: updateStamina_frame noclipMove_frame applyDrag_frame applyMovement_frame
      applyGravity_frame integrateAndFriction_frame
      dest!: applyJetpack_fields applyDownThrusters_fields
      split: option.splits prod.splits)

lemma updatePlayerPhysics_returns:
  assumes "\<not> noclip gs"
    and "snd (updatePlayerPhysics ph p controls dt planets sun camera gs) \<noteq> None"
  shows "\<exists>ph' env p5 p6 p7 col pos vel.
           fuel p5 = fuel p
           \<and> applyJetpack ph' env controls camera dt planets p5 = Some p6
           \<and> applyDownThrusters ph' env controls camera dt planets p6 = Some p7
           \<and> fst (fst (updatePlayerPhysics ph p controls dt planets sun camera gs))
               = integrateAndFriction col pos vel dt p7"
proof -
  have frame: "fuel (applyGravity ph' env bodies dt
                 (applyMovement ph' env controls camera dt
                   (applyDrag drag dt (updateStamina p controls dt
                      \<lparr>player_onGround := g\<rparr>)))) = fuel p" for ph' env bodies drag g
    by (simp add: updateStamina_frame applyDrag_frame applyMovement_frame applyGravity_frame)
  show ?thesis
    using assms unfolding updatePlayerPhysics_def Let_def
    by (auto split: option.splits prod.splits)
       (intro exI conjI; (assumption | rule frame | rule refl))+
qed

lemma updatePlayerPhysics_jetpack_drain:
  assumes "\<not> noclip gs" and "jetpack controls" and "fuel p = 1" and "1 / 20 < dt"
    and "snd (updatePlayerPhysics ph p controls dt planets sun camera gs) \<noteq> None"
  shows "fuel (fst (fst (updatePlayerPhysics ph p controls dt planets sun camera gs))) = 0"
proof -
  from updatePlayerPhysics_returns [OF assms(1,5)] obtain ph' env p5 p6 p7 col pos vel where
    f5: "fuel p5 = fuel p"
    and j: "applyJetpack ph' env controls camera dt planets p5 = Some p6"
    and d: "applyDownThrusters ph' env controls camera dt planets p6 = Some p7"
    and r: "fst (fst (updatePlayerPhysics ph p controls dt planets sun camera gs))
            = integrateAndFriction col pos vel dt p7"
    by blast
  have "fuel p6 = 0"
    using applyJetpack_fields [OF j] assms(2,3,4) f5 by simp
  then have "fuel p7 = 0"
    using applyDownThrusters_fields [OF d] by simp
  then show ?thesis
    by (simp add: r integrateAndFriction_frame)
qed

lemma jetpack_tick_returns:
  "snd (updatePlayerPhysics Physics_constructor (newPlayer\<lparr>fuel := 1\<rparr>)
          (noInput\<lparr>jetpack := True\<rparr>) (1 / 10) [] None lookAlongZ \<lparr>noclip = False\<rparr>) \<noteq> None"
  by (simp add: updatePlayerPhysics_def calculateUpDirection_def getNearestPlanet_def
      checkPlayerEnvironment_def deepSpaceResult_def dragFor_def applyJetpack_def
      applyDownThrusters_def thrustNearPlanet_def noInput_def Let_def)

text \<open>
  Claim C8. For every call of \<open>updatePlayerPhysics\<close> with \<open>deltaTime \<ge> 0\<close>,
  \<open>fuel \<ge> 0\<close> and stamina within \<open>[0, maxStamina]\<close>, the avatar is left with
  \<open>fuel \<ge> 0\<close> and stamina within \<open>[0, maxStamina]\<close> (whether the call returns or
  throws); the drain and recharge rates of the avatar are not negative, as the
  constructor's 25 and 15. With the jetpack active in a regular (not noclip) tick
  that returns, \<open>fuel = 1\<close> and \<open>deltaTime > 1/20\<close> leave the fuel at exactly 0.
\<close>

theorem fuel_stamina_never_negative:
  assumes "0 \<le> dt" and "0 \<le> fuel p" and "0 \<le> stamina p" and "stamina p \<le> maxStamina p"
    and "0 \<le> staminaDrainRate p" and "0 \<le> staminaRechargeRate p"
  shows "0 \<le> fuel (fst (fst (updatePlayerPhysics ph p controls dt planets sun camera gs)))
    \<and> 0 \<le> stamina (fst (fst (updatePlayerPhysics ph p controls dt planets sun camera gs)))
    \<and> stamina (fst (fst (updatePlayerPhysics ph p controls dt planets sun camera gs)))
        \<le> maxStamina (fst (fst (updatePlayerPhysics ph p controls dt planets sun camera gs)))
    \<and> (\<not> noclip gs \<and> jetpack controls \<and> fuel p = 1 \<and> 1 / 20 < dt
         \<and> snd (updatePlayerPhysics ph p controls dt planets sun camera gs) \<noteq> None
         \<longrightarrow> fuel (fst (fst (updatePlayerPhysics ph p controls dt planets sun camera gs))) = 0)"
proof (intro conjI impI)
  show "0 \<le> fuel (fst (fst (updatePlayerPhysics ph p controls dt planets sun camera gs)))"
    using assms(2) by (rule updatePlayerPhysics_fuel)
next
  show "0 \<le> stamina (fst (fst (updatePlayerPhysics ph p controls dt planets sun camera gs)))"
    using updateStamina_bounds [OF assms(1,3,4,5,6)] by (simp add: updatePlayerPhysics_stamina)
next
  show "stamina (fst (fst (updatePlayerPhysics ph p controls dt planets sun camera gs)))
        \<le> maxStamina (fst (fst (updatePlayerPhysics ph p controls dt planets sun camera gs)))"
    using updateStamina_bounds [OF assms(1,3,4,5,6)] by (simp add: updatePlayerPhysics_stamina)
next
  assume "\<not> noclip gs \<and> jetpack controls \<and> fuel p = 1 \<and> 1 / 20 < dt
         \<and> snd (updatePlayerPhysics ph p controls dt planets sun camera gs) \<noteq> None"
  then show "fuel (fst (fst (updatePlayerPhysics ph p controls dt planets sun camera gs))) = 0"
    by (simp add: updatePlayerPhysics_jetpack_drain)
qed

theorem fuel_stamina_never_negative_witness:
  "(0::real) \<le> 1 / 10 \<and> fuel (newPlayer\<lparr>fuel := 1\<rparr>) = 1
   \<and> 0 \<le> stamina (newPlayer\<lparr>fuel := 1\<rparr>)
   \<and> stamina (newPlayer\<lparr>fuel := 1\<rparr>) \<le> maxStamina (newPlayer\<lparr>fuel := 1\<rparr>)
   \<and> 0 \<le> staminaDrainRate (newPlayer\<lparr>fuel := 1\<rparr>)
   \<and> 0 \<le> staminaRechargeRate (newPlayer\<lparr>fuel := 1\<rparr>)
   \<and> jetpack (noInput\<lparr>jetpack := True\<rparr>) \<and> (1::real) / 20 < 1 / 10
   \<and> snd (updatePlayerPhysics Physics_constructor (newPlayer\<lparr>fuel := 1\<rparr>)
          (noInput\<lparr>jetpack := True\<rparr>) (1 / 10) [] None lookAlongZ \<lparr>noclip = False\<rparr>) \<noteq> None
   \<and> fuel (fst (fst (updatePlayerPhysics Physics_constructor (newPlayer\<lparr>fuel := 1\<rparr>)
          (noInput\<lparr>jetpack := True\<rparr>) (1 / 10) [] None lookAlongZ \<lparr>noclip = False\<rparr>))) = 0
   \<and> 0 \<le> stamina (fst (fst (updatePlayerPhysics Physics_constructor (newPlayer\<lparr>fuel := 1\<rparr>)
          (noInput\<lparr>jetpack := True\<rparr>) (1 / 10) [] None lookAlongZ \<lparr>noclip = False\<rparr>)))
   \<and> stamina (fst (fst (updatePlayerPhysics Physics_constructor (newPlayer\<lparr>fuel := 1\<rparr>)
          (noInput\<lparr>jetpack := True\<rparr>) (1 / 10) [] None lookAlongZ \<lparr>noclip = False\<rparr>)))
       \<le> maxStamina (fst (fst (updatePlayerPhysics Physics_constructor (newPlayer\<lparr>fuel := 1\<rparr>)
          (noInput\<lparr>jetpack := True\<rparr>) (1 / 10) [] None lookAlongZ \<lparr>noclip = False\<rparr>)))"
proof -
  have h: "(0::real) \<le> 1 / 10" "0 \<le> fuel (newPlayer\<lparr>fuel := 1\<rparr>)"
    "0 \<le> stamina (newPlayer\<lparr>fuel := 1\<rparr>)"
    "stamina (newPlayer\<lparr>fuel := 1\<rparr>) \<le> maxStamina (newPlayer\<lparr>fuel := 1\<rparr>)"
    "0 \<le> staminaDrainRate (newPlayer\<lparr>fuel := 1\<rparr>)"
    "0 \<le> staminaRechargeRate (newPlayer\<lparr>fuel := 1\<rparr>)"
    by (simp_all add: newPlayer_def)
  have j: "jetpack (noInput\<lparr>jetpack := True\<rparr>)" "(1::real) / 20 < 1 / 10"
    "fuel (newPlayer\<lparr>fuel := 1\<rparr>) = 1"
    by simp_all
  show ?thesis
    using fuel_stamina_never_negative [OF h, where ph = Physics_constructor
        and controls = "noInput\<lparr>jetpack := True\<rparr>" and planets = "[]" and sun = None
        and camera = lookAlongZ and gs = "\<lparr>noclip = False\<rparr>"]
      h j jetpack_tick_returns
    by simp
qed

section \<open>Noclip\<close>

lemma addVectors_zero_right: "addVectors v (Vector3 0 0 0) = v"
  by (cases v) (simp add: addVectors_def)

lemma addVectors_multiplyScalar:
  "addVectors (addVectors p (multiplyScalar u a)) (multiplyScalar u b)
   = addVectors p (multiplyScalar u (a + b))"
  by (simp add: addVectors_def multiplyScalar_def algebra_simps)

lemma forward_only_direction:
  assumes "moveForward controls" and "\<not> moveBackward controls"
    and "\<not> moveLeft controls" and "\<not> moveRight controls"
  shows "calculateMoveDirection controls camera True False = worldDirection camera"
  using assms by (simp add: calculateMoveDirection_def Let_def addVectors_zero_left)

lemma noclip_step_position:
  assumes "moveForward controls" and "\<not> moveBackward controls"
    and "\<not> moveLeft controls" and "\<not> moveRight controls" and "\<not> sprint controls"
  shows "noclipMove ph p controls dt camera
         = p\<lparr>player_position :=
                addVectors (player_position p)
                  (multiplyScalar (normalize_v (worldDirection camera)) (moveSpeed ph * 100 * dt)),
              player_velocity := Vector3 0 0 0, player_onGround := False\<rparr>"
proof (cases "worldDirection camera = Vector3 0 0 0")
  case True
  then show ?thesis
    using assms
    by (simp add: noclipMove_def forward_only_direction Let_def vlength_zero_iff normalize_zero
        multiplyScalar_def addVectors_zero_right)
next
  case False
  then have "0 < vlength (worldDirection camera)"
    by (rule vlength_pos)
  then show ?thesis
    using assms by (simp add: noclipMove_def forward_only_direction Let_def)
qed

lemma noclip_tick:
  assumes "noclip gs"
  shows "updatePlayerPhysics ph p controls dt planets sun camera gs
         = ((noclipMove ph (updateStamina p controls dt) controls dt camera, ph),
            Some noclipResult)"
  using assms by (simp add: updatePlayerPhysics_def)

lemma noclip_ticks:
  assumes "noclip gs" and "moveForward controls" and "\<not> moveBackward controls"
    and "\<not> moveLeft controls" and "\<not> moveRight controls" and "\<not> sprint controls"
  shows "\<exists>pl. ticks n ph p controls dt planets sun camera gs = (pl, ph)
           \<and> player_position pl
               = addVectors (player_position p)
                   (multiplyScalar (normalize_v (worldDirection camera))
                      (moveSpeed ph * 100 * dt * real n))
           \<and> fuel pl = fuel p
           \<and> (0 < n \<longrightarrow> player_velocity pl = Vector3 0 0 0 \<and> \<not> player_onGround pl)"
proof (induction n arbitrary: p)
  case 0
  then show ?case
    by (simp add: multiplyScalar_def addVectors_zero_right)
next
  case (Suc n)
  let ?u = "normalize_v (worldDirection camera)"
  let ?k = "moveSpeed ph * 100 * dt"
  let ?p1 = "noclipMove ph (updateStamina p controls dt) controls dt camera"
  have step: "ticks (Suc n) ph p controls dt planets sun camera gs
              = ticks n ph ?p1 controls dt planets sun camera gs"
    using assms(1) by (simp add: noclip_tick)
  have p1: "?p1 = (updateStamina p controls dt)\<lparr>player_position :=
                addVectors (player_position p) (multiplyScalar ?u ?k),
              player_velocity := Vector3 0 0 0, player_onGround := False\<rparr>"
    using noclip_step_position [OF assms(2-6)] by (simp add: updateStamina_frame)
  from Suc.IH [of ?p1] obtain pl where
    t: "ticks n ph ?p1 controls dt planets sun camera gs = (pl, ph)"
    and pos: "player_position pl
              = addVectors (player_position ?p1) (multiplyScalar ?u (?k * real n))"
    and f: "fuel pl = fuel ?p1"
    and v: "0 < n \<longrightarrow> player_velocity pl = Vector3 0 0 0 \<and> \<not> player_onGround pl"
    by blast
  have pos': "player_position pl
              = addVectors (player_position p) (multiplyScalar ?u (?k * real (Suc n)))"
    by (simp add: pos p1 addVectors_multiplyScalar algebra_simps)
  have v': "player_velocity pl = Vector3 0 0 0 \<and> \<not> player_onGround pl"
  proof (cases n)
    case 0
    then show ?thesis using t by (auto simp: p1)
  next
    case (Suc m)
    then show ?thesis using v by simp
  qed
  have f': "fuel pl = fuel p"
    using f by (simp add: noclipMove_frame updateStamina_frame)
  show ?case
    using step t pos' v' f' by simp
qed

lemma noclip_ticks_planets:
  assumes "noclip gs"
  shows "ticks n ph p controls dt planets sun camera gs
         = ticks n ph p controls dt [] None camera gs"
  using assms by (induction n arbitrary: p) (simp_all add: noclip_tick)

lemma moved_distance:
  assumes "u \<noteq> Vector3 0 0 0"
  shows "distanceTo (addVectors p (multiplyScalar (normalize_v u) k)) p = \<bar>k\<bar>"
proof -
  have "subVectors (addVectors p w) p = w" for w
    by (cases w) (simp add: subVectors_def addVectors_def)
  then show ?thesis
    using assms by (simp add: distanceTo_vlength vlength_multiplyScalar vlength_normalize)
qed

text \<open>
  Claim C6. With \<open>noclip\<close> set and only the forward input held, \<open>n\<close> ticks of
  \<open>updatePlayerPhysics\<close> with a fixed \<open>deltaTime\<close> and camera move the avatar by
  exactly \<open>moveSpeed * 100 * deltaTime * n\<close> along the view direction. After every
  tick the velocity is the zero vector and \<open>onGround\<close> is false; the planets and
  the sun play no part (no gravity, drag or collision), the classifier state and
  the fuel are untouched, and each tick reports the noclip result with
  \<open>onGround = false\<close>.
\<close>

theorem noclip_kinematic:
  assumes "noclip gs" and "moveForward controls" and "\<not> moveBackward controls"
    and "\<not> moveLeft controls" and "\<not> moveRight controls" and "\<not> sprint controls"
  shows "\<exists>pl. ticks n ph p controls dt planets sun camera gs = (pl, ph)
           \<and> player_position pl
               = addVectors (player_position p)
                   (multiplyScalar (normalize_v (worldDirection camera))
                      (moveSpeed ph * 100 * dt * real n))
           \<and> (worldDirection camera \<noteq> Vector3 0 0 0 \<longrightarrow>
                distanceTo (player_position pl) (player_position p)
                = \<bar>moveSpeed ph * 100 * dt * real n\<bar>)
           \<and> (0 < n \<longrightarrow> player_velocity pl = Vector3 0 0 0 \<and> \<not> player_onGround pl)
           \<and> fuel pl = fuel p
           \<and> ticks n ph p controls dt planets sun camera gs
               = ticks n ph p controls dt [] None camera gs
           \<and> snd (updatePlayerPhysics ph p controls dt planets sun camera gs)
               = Some noclipResult
           \<and> \<not> env_onGround (environment noclipResult)
           \<and> \<not> col_onGround (collision noclipResult)"
proof -
  from noclip_ticks [OF assms] obtain pl where
    t: "ticks n ph p controls dt planets sun camera gs = (pl, ph)"
    and pos: "player_position pl
              = addVectors (player_position p)
                  (multiplyScalar (normalize_v (worldDirection camera))
                     (moveSpeed ph * 100 * dt * real n))"
    and f: "fuel pl = fuel p"
    and v: "0 < n \<longrightarrow> player_velocity pl = Vector3 0 0 0 \<and> \<not> player_onGround pl"
    by blast
  have d: "worldDirection camera \<noteq> Vector3 0 0 0 \<longrightarrow>
           distanceTo (player_position pl) (player_position p)
           = \<bar>moveSpeed ph * 100 * dt * real n\<bar>"
    unfolding pos by (simp add: moved_distance)
  have e: "ticks n ph p controls dt planets sun camera gs
           = ticks n ph p controls dt [] None camera gs"
    using assms(1) by (rule noclip_ticks_planets)
  have r: "snd (updatePlayerPhysics ph p controls dt planets sun camera gs) = Some noclipResult"
    using assms(1) by (simp add: noclip_tick)
  have g: "\<not> env_onGround (environment noclipResult) \<and> \<not> col_onGround (collision noclipResult)"
    by (simp add: noclipResult_def)
  show ?thesis
    using t pos d v f e r g by blast
qed

theorem noclip_kinematic_witness:
  "noclip \<lparr>noclip = True\<rparr> \<and> moveForward (noInput\<lparr>moveForward := True\<rparr>)
   \<and> worldDirection lookAlongZ \<noteq> Vector3 0 0 0
   \<and> (\<exists>pl. ticks 3 Physics_constructor newPlayer (noInput\<lparr>moveForward := True\<rparr>) (1 / 50)
               [planetA] None lookAlongZ \<lparr>noclip = True\<rparr> = (pl, Physics_constructor)
          \<and> player_position pl = Vector3 0 0 (-30)
          \<and> distanceTo (player_position pl) (player_position newPlayer) = 30
          \<and> player_velocity pl = Vector3 0 0 0 \<and> \<not> player_onGround pl)"
proof -
  have c: "noclip \<lparr>noclip = True\<rparr>" "moveForward (noInput\<lparr>moveForward := True\<rparr>)"
    "\<not> moveBackward (noInput\<lparr>moveForward := True\<rparr>)"
    "\<not> moveLeft (noInput\<lparr>moveForward := True\<rparr>)"
    "\<not> moveRight (noInput\<lparr>moveForward := True\<rparr>)"
    "\<not> sprint (noInput\<lparr>moveForward := True\<rparr>)"
    by (simp_all add: noInput_def)
  have w: "worldDirection lookAlongZ \<noteq> Vector3 0 0 0"
    by (simp add: lookAlongZ_def)
  have u: "normalize_v (worldDirection lookAlongZ) = Vector3 0 0 (-1)"
    by (simp add: lookAlongZ_def normalize_v_def vlength_def lengthSq_def multiplyScalar_def)
  have k: "moveSpeed Physics_constructor * 100 * (1 / 50) * real 3 = 30"
    by (simp add: Physics_constructor_def)
  have a: "addVectors (player_position newPlayer) (multiplyScalar (Vector3 0 0 (-1)) 30)
           = Vector3 0 0 (-30)"
    by (simp add: newPlayer_def addVectors_def multiplyScalar_def)
  from noclip_kinematic [OF c, where n = 3 and ph = Physics_constructor and p = newPlayer
      and dt = "1 / 50" and planets = "[planetA]" and sun = None and camera = lookAlongZ]
  obtain pl where
    "ticks 3 Physics_constructor newPlayer (noInput\<lparr>moveForward := True\<rparr>) (1 / 50)
       [planetA] None lookAlongZ \<lparr>noclip = True\<rparr> = (pl, Physics_constructor)"
    "player_position pl = Vector3 0 0 (-30)"
    "distanceTo (player_position pl) (player_position newPlayer) = 30"
    "player_velocity pl = Vector3 0 0 0 \<and> \<not> player_onGround pl"
    unfolding u k a using w by auto
  then show ?thesis
    using c(1,2) w by blast
qed

section \<open>The zone switch delay\<close>

lemma delayZone_last: "delayZone ph z = (z', ph') \<Longrightarrow> lastZone ph' = Some z'"
  by (auto simp: delayZone_def Let_def split: option.splits if_splits)

lemma delayZone_switch:
  assumes "delayZone ph z = (z', ph')" and "lastZone ph = Some l" and "z' \<noteq> l"
  shows "z' = z \<and> 3 \<le> zoneSwitchDelay ph + 1 \<and> zoneSwitchDelay ph' = 0"
  using assms by (auto simp: delayZone_def Let_def split: if_splits)

lemma delayZone_hold:
  assumes "delayZone ph z = (z', ph')" and "lastZone ph = Some l"
    and "0 \<le> zoneSwitchDelay ph" and "zoneSwitchDelay ph + 1 < 3"
  shows "z' = l \<and> 0 \<le> zoneSwitchDelay ph' \<and> zoneSwitchDelay ph' \<le> zoneSwitchDelay ph + 1"
  using assms by (auto simp: delayZone_def Let_def split: if_splits)

lemma check_step:
  assumes "checkPlayerEnvironment ph pos planets = Some (env, ph')"
  shows "(getNearestPlanet pos planets = Some None \<and> env = deepSpaceResult \<and> ph' = ph)
         \<or> (\<exists>planet d r. env_nearest env = Some (planet, d) \<and> parametersRadius planet = Some r
               \<and> delayZone ph (atmosphereZone (classify ph planet d r))
                   = (atmosphereZone env, ph'))"
  using assms
  by (auto simp: checkPlayerEnvironment_def Let_def classify_def
      split: option.splits prod.splits)

lemma check_step_found:
  assumes "checkPlayerEnvironment ph pos planets = Some (env, ph')"
    and "\<not> (\<forall>p\<in>set planets. parametersRadius p = Some None)"
  shows "\<exists>z. delayZone ph z = (atmosphereZone env, ph')"
  using check_step [OF assms(1)] assms(2) by (auto simp: getNearestPlanet_no_planet)

lemma zoneTrace_no_planet:
  assumes "\<forall>p\<in>set planets. parametersRadius p = Some None"
  shows "zoneTrace ph planets ps = replicate (length ps) DeepSpace"
proof (induction ps)
  case Nil
  then show ?case by simp
next
  case (Cons p ps)
  have "getNearestPlanet p planets = Some None"
    using assms by (simp add: getNearestPlanet_no_planet)
  then have "checkPlayerEnvironment ph p planets = Some (deepSpaceResult, ph)"
    by (simp add: checkPlayerEnvironment_def)
  then show ?case
    using Cons by (simp add: deepSpaceResult_def)
qed

text \<open>While the counter stays below 3 the stored zone is reported.\<close>

lemma zoneTrace_hold:
  assumes "\<not> (\<forall>p\<in>set planets. parametersRadius p = Some None)"
  shows "lastZone ph = Some l \<Longrightarrow> 0 \<le> zoneSwitchDelay ph \<Longrightarrow>
         zoneSwitchDelay ph + int k < 3 \<Longrightarrow>
         set (take k (zoneTrace ph planets ps)) \<subseteq> {l}"
proof (induction ps arbitrary: ph k)
  case Nil
  then show ?case by simp
next
  case (Cons p ps)
  show ?case
  proof (cases k)
    case 0
    then show ?thesis by simp
  next
    case (Suc k')
    show ?thesis
    proof (cases "checkPlayerEnvironment ph p planets")
      case None
      then show ?thesis by simp
    next
      case (Some a)
      obtain env ph' where a: "a = (env, ph')"
        by (cases a)
      from check_step_found [OF Some [unfolded a] assms] obtain z where
        z: "delayZone ph z = (atmosphereZone env, ph')"
        by blast
      have lt: "zoneSwitchDelay ph + 1 < 3"
        using Cons.prems(3) Suc by simp
      from delayZone_hold [OF z Cons.prems(1,2) lt] have
        h: "atmosphereZone env = l" "0 \<le> zoneSwitchDelay ph'"
           "zoneSwitchDelay ph' \<le> zoneSwitchDelay ph + 1"
        by simp_all
      have "lastZone ph' = Some l"
        using delayZone_last [OF z] h(1) by simp
      moreover have "zoneSwitchDelay ph' + int k' < 3"
        using h(3) Cons.prems(3) Suc by simp
      ultimately have "set (take k' (zoneTrace ph' planets ps)) \<subseteq> {l}"
        using h(2) by (simp add: Cons.IH)
      then show ?thesis
        using Some a Suc h(1) by simp
    qed
  qed
qed

text \<open>A reported zone that differs from the stored one is followed by two
  ticks that report it again.\<close>

lemma zoneTrace_after_switch:
  assumes "\<not> (\<forall>p\<in>set planets. parametersRadius p = Some None)"
    and "lastZone ph = Some l"
    and "zoneTrace ph planets ps = z # zs" and "z \<noteq> l"
  shows "set (take 2 zs) \<subseteq> {z}"
proof (cases ps)
  case Nil
  then show ?thesis using assms(3) by simp
next
  case (Cons p ps')
  from assms(3) Cons obtain env ph' where
    c: "checkPlayerEnvironment ph p planets = Some (env, ph')"
    and z: "z = atmosphereZone env" and zs: "zs = zoneTrace ph' planets ps'"
    by (auto split: option.splits)
  from check_step_found [OF c assms(1)] obtain z0 where
    d: "delayZone ph z0 = (atmosphereZone env, ph')"
    by blast
  have "zoneSwitchDelay ph' = 0"
    using delayZone_switch [OF d assms(2)] assms(4) z by simp
  moreover have "lastZone ph' = Some z"
    using delayZone_last [OF d] z by simp
  ultimately show ?thesis
    unfolding zs using zoneTrace_hold [OF assms(1), of ph' z 2 ps'] by simp
qed

lemma zoneTrace_spaced_found:
  assumes "\<not> (\<forall>p\<in>set planets. parametersRadius p = Some None)"
  shows "Suc i < length (zoneTrace ph planets ps) \<Longrightarrow>
         zoneTrace ph planets ps ! Suc i \<noteq> zoneTrace ph planets ps ! i \<Longrightarrow>
         set (take 2 (drop (i + 2) (zoneTrace ph planets ps)))
           \<subseteq> {zoneTrace ph planets ps ! Suc i}"
proof (induction ps arbitrary: ph i)
  case Nil
  then show ?case by simp
next
  case (Cons p ps)
  from Cons.prems(1) obtain env ph' where
    c: "checkPlayerEnvironment ph p planets = Some (env, ph')"
    by (cases "checkPlayerEnvironment ph p planets") auto
  let ?zs = "zoneTrace ph' planets ps"
  have t: "zoneTrace ph planets (p # ps) = atmosphereZone env # ?zs"
    using c by simp
  from check_step_found [OF c assms] obtain z0 where
    d: "delayZone ph z0 = (atmosphereZone env, ph')"
    by blast
  have last: "lastZone ph' = Some (atmosphereZone env)"
    using d by (rule delayZone_last)
  show ?case
  proof (cases i)
    case 0
    from Cons.prems(1) t 0 obtain z zs where zs: "?zs = z # zs"
      by (cases ?zs) auto
    have "z \<noteq> atmosphereZone env"
      using Cons.prems(2) t 0 zs by simp
    then have "set (take 2 zs) \<subseteq> {z}"
      using zoneTrace_after_switch [OF assms last zs] by simp
    then show ?thesis
      using t 0 zs by simp
  next
    case (Suc i')
    have "Suc i' < length ?zs" and "?zs ! Suc i' \<noteq> ?zs ! i'"
      using Cons.prems t Suc by simp_all
    then have "set (take 2 (drop (i' + 2) ?zs)) \<subseteq> {?zs ! Suc i'}"
      by (rule Cons.IH)
    then show ?thesis
      using t Suc by simp
  qed
qed

lemma zoneTrace_spaced:
  assumes "Suc i < length (zoneTrace ph planets ps)"
    and "zoneTrace ph planets ps ! Suc i \<noteq> zoneTrace ph planets ps ! i"
  shows "set (take 2 (drop (i + 2) (zoneTrace ph planets ps)))
           \<subseteq> {zoneTrace ph planets ps ! Suc i}"
proof (cases "\<forall>p\<in>set planets. parametersRadius p = Some None")
  case True
  then have "zoneTrace ph planets ps = replicate (length ps) DeepSpace"
    by (rule zoneTrace_no_planet)
  then show ?thesis
    using assms by simp
next
  case False
  then show ?thesis
    using assms by (rule zoneTrace_spaced_found)
qed

lemma zoneTrace_spaced_nth:
  assumes "Suc i < length (zoneTrace ph planets ps)"
    and "zoneTrace ph planets ps ! Suc i \<noteq> zoneTrace ph planets ps ! i"
    and "i + 2 \<le> j" and "j \<le> i + 3" and "j < length (zoneTrace ph planets ps)"
  shows "zoneTrace ph planets ps ! j = zoneTrace ph planets ps ! Suc i"
proof -
  let ?zs = "zoneTrace ph planets ps"
  let ?d = "take 2 (drop (i + 2) ?zs)"
  have small: "j - (i + 2) < 2" and "j - (i + 2) < length ?zs - (i + 2)"
    using assms(3,4,5) by arith+
  then have len: "j - (i + 2) < length ?d"
    by simp
  have j: "(i + 2) + (j - (i + 2)) = j"
    using assms(3) by arith
  have "?d ! (j - (i + 2)) = drop (i + 2) ?zs ! (j - (i + 2))"
    using small by (rule nth_take)
  also have "\<dots> = ?zs ! ((i + 2) + (j - (i + 2)))"
    using assms(3,5) by (intro nth_drop) arith
  finally have "?d ! (j - (i + 2)) = ?zs ! j"
    unfolding j .
  moreover have "?d ! (j - (i + 2)) \<in> set ?d"
    using len by (rule nth_mem)
  ultimately show ?thesis
    using zoneTrace_spaced [OF assms(1,2)] by auto
qed

lemma example_trace:
  "zoneTrace Physics_constructor [planetA]
     [Vector3 0 10 0, Vector3 0 100 0, Vector3 0 100 0, Vector3 0 100 0,
      Vector3 0 10 0, Vector3 0 10 0]
   = [Surface, Surface, Surface, DeepSpace, DeepSpace, DeepSpace]"
  by (simp add: checkPlayerEnvironment_def getNearestPlanet_def parametersRadius_def
      planetA_def distanceTo_def lengthSq_def subVectors_def classify_def groundTest_def
      groundThreshold_def proposedZone_def js_gt_def js_le_def js_lt_def delayZone_def
      Physics_constructor_def Let_def)

lemma delayZone_cases:
  assumes "delayZone ph z = (z', ph')"
  shows "(case lastZone ph of
            None \<Rightarrow> z' = z \<and> zoneSwitchDelay ph' = 0
          | Some l \<Rightarrow>
              if z = l then z' = l \<and> zoneSwitchDelay ph' = 0
              else if zoneSwitchDelay ph + 1 < 3
                   then z' = l \<and> zoneSwitchDelay ph' = zoneSwitchDelay ph + 1
                   else z' = z \<and> zoneSwitchDelay ph' = 0)
         \<and> lastZone ph' = Some z'"
  using assms by (auto simp: delayZone_def Let_def split: option.splits if_splits)

text \<open>After a tick whose proposal agrees with the stored zone the counter is 0
  again, so the stored zone is reported on that tick and on the two after it.\<close>

lemma zoneTrace_agree:
  assumes "lastZone ph = Some l"
    and "getNearestPlanet p planets = Some (Some (planet, d))"
    and "parametersRadius planet = Some r"
    and "atmosphereZone (classify ph planet d r) = l"
  shows "set (take 3 (zoneTrace ph planets (p # ps))) \<subseteq> {l}"
proof -
  have found: "\<not> (\<forall>q\<in>set planets. parametersRadius q = Some None)"
    using assms(2) getNearestPlanet_no_planet [of p planets] by auto
  obtain z' ph' where dz: "delayZone ph l = (z', ph')"
    by (cases "delayZone ph l")
  have c: "checkPlayerEnvironment ph p planets
           = Some ((classify ph planet d r)\<lparr>atmosphereZone := z'\<rparr>, ph')"
    using assms(2,3,4) dz by (simp add: checkPlayerEnvironment_def Let_def)
  have z: "z' = l" "zoneSwitchDelay ph' = 0" "lastZone ph' = Some l"
    using delayZone_cases [OF dz] assms(1) by simp_all
  have "set (take 2 (zoneTrace ph' planets ps)) \<subseteq> {l}"
    using zoneTrace_hold [OF found, of ph' l 2 ps] z by simp
  then show ?thesis
    using c z(1) by (simp add: numeral_3_eq_3 numeral_2_eq_2)
qed



lemma oscillating_trace:
  "zoneTrace Physics_constructor [planetA]
     [Vector3 0 10 0, Vector3 0 100 0, Vector3 0 10 0, Vector3 0 100 0,
      Vector3 0 10 0, Vector3 0 100 0]
   = [Surface, Surface, Surface, Surface, Surface, Surface]"
  by (simp add: checkPlayerEnvironment_def getNearestPlanet_def parametersRadius_def
      planetA_def distanceTo_def lengthSq_def subVectors_def classify_def groundTest_def
      groundThreshold_def proposedZone_def js_gt_def js_le_def js_lt_def delayZone_def
      Physics_constructor_def Let_def)


text \<open>
  What the switch delay does guarantee. One step: without a stored zone the
  proposal is accepted; a proposal equal to the stored zone is returned and resets
  the counter to 0; a proposal different from the stored zone (whatever it
  proposes) returns the stored zone and increments the counter while the result
  is below 3, and is returned, with the counter reset, when the counter reaches
  3. Every call that finds a nearest planet passes its proposed zone through this
  step. Hence, over any sequence of avatar positions and a fixed planet list: a
  tick whose reported zone differs from the one before is followed by two ticks
  that report the same zone again (at most one change in any three consecutive
  ticks); from a counter of 0 the stored zone is reported for two more ticks; and
  a tick that agrees with the stored zone is followed by two ticks that still
  report it.
\<close>

theorem zone_switch_delay:
  "(\<forall>z z' ph'. delayZone ph z = (z', ph') \<longrightarrow>
       (case lastZone ph of
          None \<Rightarrow> z' = z \<and> zoneSwitchDelay ph' = 0
        | Some l \<Rightarrow>
            if z = l then z' = l \<and> zoneSwitchDelay ph' = 0
            else if zoneSwitchDelay ph + 1 < 3
                 then z' = l \<and> zoneSwitchDelay ph' = zoneSwitchDelay ph + 1
                 else z' = z \<and> zoneSwitchDelay ph' = 0)
       \<and> lastZone ph' = Some z')
   \<and> (\<forall>pos env ph' planet d.
         checkPlayerEnvironment ph pos planets = Some (env, ph')
         \<and> env_nearest env = Some (planet, d) \<longrightarrow>
         (\<exists>r. parametersRadius planet = Some r
            \<and> delayZone ph (atmosphereZone (classify ph planet d r))
                = (atmosphereZone env, ph')))
   \<and> (\<forall>i j. Suc i < length (zoneTrace ph planets ps)
         \<and> zoneTrace ph planets ps ! Suc i \<noteq> zoneTrace ph planets ps ! i
         \<and> i + 2 \<le> j \<and> j \<le> i + 3 \<and> j < length (zoneTrace ph planets ps) \<longrightarrow>
         zoneTrace ph planets ps ! j = zoneTrace ph planets ps ! Suc i)
   \<and> (\<forall>l. lastZone ph = Some l \<and> zoneSwitchDelay ph = 0
         \<and> \<not> (\<forall>p\<in>set planets. parametersRadius p = Some None) \<longrightarrow>
         set (take 2 (zoneTrace ph planets ps)) \<subseteq> {l})
   \<and> (\<forall>l p planet d r. lastZone ph = Some l
         \<and> getNearestPlanet p planets = Some (Some (planet, d))
         \<and> parametersRadius planet = Some r
         \<and> atmosphereZone (classify ph planet d r) = l \<longrightarrow>
         set (take 3 (zoneTrace ph planets (p # ps))) \<subseteq> {l})"
proof -
  have a: "\<forall>z z' ph'. delayZone ph z = (z', ph') \<longrightarrow>
       (case lastZone ph of
          None \<Rightarrow> z' = z \<and> zoneSwitchDelay ph' = 0
        | Some l \<Rightarrow>
            if z = l then z' = l \<and> zoneSwitchDelay ph' = 0
            else if zoneSwitchDelay ph + 1 < 3
                 then z' = l \<and> zoneSwitchDelay ph' = zoneSwitchDelay ph + 1
                 else z' = z \<and> zoneSwitchDelay ph' = 0)
       \<and> lastZone ph' = Some z'"
    using delayZone_cases [of ph] by blast
  have b: "\<forall>pos env ph' planet d.
         checkPlayerEnvironment ph pos planets = Some (env, ph')
         \<and> env_nearest env = Some (planet, d) \<longrightarrow>
         (\<exists>r. parametersRadius planet = Some r
            \<and> delayZone ph (atmosphereZone (classify ph planet d r))
                = (atmosphereZone env, ph'))"
  proof (intro allI impI)
    fix pos env ph' planet d
    assume h: "checkPlayerEnvironment ph pos planets = Some (env, ph')
               \<and> env_nearest env = Some (planet, d)"
    then have "env \<noteq> deepSpaceResult"
      by (auto simp: deepSpaceResult_def)
    then show "\<exists>r. parametersRadius planet = Some r
            \<and> delayZone ph (atmosphereZone (classify ph planet d r))
                = (atmosphereZone env, ph')"
      using check_step [of ph pos planets env ph'] h by auto
  qed
  have c: "\<forall>i j. Suc i < length (zoneTrace ph planets ps)
         \<and> zoneTrace ph planets ps ! Suc i \<noteq> zoneTrace ph planets ps ! i
         \<and> i + 2 \<le> j \<and> j \<le> i + 3 \<and> j < length (zoneTrace ph planets ps) \<longrightarrow>
         zoneTrace ph planets ps ! j = zoneTrace ph planets ps ! Suc i"
    using zoneTrace_spaced_nth [of _ ph planets ps] by blast
  have d: "\<forall>l. lastZone ph = Some l \<and> zoneSwitchDelay ph = 0
         \<and> \<not> (\<forall>p\<in>set planets. parametersRadius p = Some None) \<longrightarrow>
         set (take 2 (zoneTrace ph planets ps)) \<subseteq> {l}"
    using zoneTrace_hold [of planets ph _ 2 ps] by simp
  have e: "\<forall>l p planet d r. lastZone ph = Some l
         \<and> getNearestPlanet p planets = Some (Some (planet, d))
         \<and> parametersRadius planet = Some r
         \<and> atmosphereZone (classify ph planet d r) = l \<longrightarrow>
         set (take 3 (zoneTrace ph planets (p # ps))) \<subseteq> {l}"
    using zoneTrace_agree [of ph _ _ planets _ _ _ ps] by blast
  from a b c d e show ?thesis
    by (intro conjI)
qed

theorem zone_switch_delay_witness:
  "zoneTrace Physics_constructor [planetA]
     [Vector3 0 10 0, Vector3 0 100 0, Vector3 0 100 0, Vector3 0 100 0,
      Vector3 0 10 0, Vector3 0 10 0]
   = [Surface, Surface, Surface, DeepSpace, DeepSpace, DeepSpace]
   \<and> zoneTrace Physics_constructor [planetA]
       [Vector3 0 10 0, Vector3 0 100 0, Vector3 0 100 0, Vector3 0 100 0,
        Vector3 0 10 0, Vector3 0 10 0] ! 5
     = zoneTrace Physics_constructor [planetA]
       [Vector3 0 10 0, Vector3 0 100 0, Vector3 0 100 0, Vector3 0 100 0,
        Vector3 0 10 0, Vector3 0 10 0] ! 3
   \<and> lastZone (Physics_constructor\<lparr>lastZone := Some Surface, zoneSwitchDelay := 2\<rparr>)
       = Some Surface
   \<and> delayZone (Physics_constructor\<lparr>lastZone := Some Surface, zoneSwitchDelay := 2\<rparr>) Surface
       = (Surface, Physics_constructor\<lparr>lastZone := Some Surface, zoneSwitchDelay := 0\<rparr>)
   \<and> delayZone (Physics_constructor\<lparr>lastZone := Some Surface\<rparr>) DeepSpace
       = (Surface, Physics_constructor\<lparr>lastZone := Some Surface, zoneSwitchDelay := 1\<rparr>)
   \<and> set (take 2 (zoneTrace (Physics_constructor\<lparr>lastZone := Some Surface\<rparr>) [planetA]
                     [Vector3 0 100 0, Vector3 0 100 0, Vector3 0 100 0])) \<subseteq> {Surface}
   \<and> zoneTrace Physics_constructor [planetA]
       [Vector3 0 10 0, Vector3 0 100 0, Vector3 0 10 0, Vector3 0 100 0,
        Vector3 0 10 0, Vector3 0 100 0]
     = [Surface, Surface, Surface, Surface, Surface, Surface]"
proof -
  let ?ps = "[Vector3 0 10 0, Vector3 0 100 0, Vector3 0 100 0, Vector3 0 100 0,
      Vector3 0 10 0, Vector3 0 10 0]"
  let ?ph = "Physics_constructor\<lparr>lastZone := Some Surface\<rparr>"
  let ?ph2 = "Physics_constructor\<lparr>lastZone := Some Surface, zoneSwitchDelay := 2\<rparr>"
  have d: "delayZone ?ph DeepSpace
           = (Surface, Physics_constructor\<lparr>lastZone := Some Surface, zoneSwitchDelay := 1\<rparr>)"
    by (simp add: delayZone_def Physics_constructor_def)
  have d2: "delayZone ?ph2 Surface
            = (Surface, Physics_constructor\<lparr>lastZone := Some Surface, zoneSwitchDelay := 0\<rparr>)"
    by (simp add: delayZone_def Physics_constructor_def)
  have f: "\<not> (\<forall>p\<in>set [planetA]. parametersRadius p = Some None)"
    by (simp add: planetA_def parametersRadius_def)
  have z: "zoneSwitchDelay ?ph = 0"
    by (simp add: Physics_constructor_def)
  have "zoneTrace Physics_constructor [planetA] ?ps ! 5
        = zoneTrace Physics_constructor [planetA] ?ps ! Suc 2"
    using zone_switch_delay [of Physics_constructor "[planetA]" ?ps] example_trace
    by (simp add: numeral_3_eq_3)
  moreover have "set (take 2 (zoneTrace ?ph [planetA]
                     [Vector3 0 100 0, Vector3 0 100 0, Vector3 0 100 0])) \<subseteq> {Surface}"
    using zone_switch_delay [of ?ph "[planetA]"
        "[Vector3 0 100 0, Vector3 0 100 0, Vector3 0 100 0]"] f z
    by simp
  ultimately show ?thesis
    using example_trace oscillating_trace d d2 by (simp add: numeral_3_eq_3)
qed

section \<open>Alignment and escape velocity\<close>

text \<open>The factor in terms of the floored escape velocity \<open>E = max 0.1 v_esc\<close>.\<close>

lemma alignFactorFor_unfold:
  "alignFactorFor gf vesc s False
   = (if s / max (1 / 10) vesc > 1 / 2
      then min 1 (gf * (1 / 10)) * max 0 (1 - (s / max (1 / 10) vesc - 1 / 2) * 2)
      else min 1 (gf * (1 / 10)))"
  by (simp add: alignFactorFor_def Let_def)

lemma alignFactorFor_band:
  assumes "max (1 / 10) vesc / 2 \<le> s" and "s \<le> max (1 / 10) vesc"
  shows "alignFactorFor gf vesc s False
         = min 1 (gf * (1 / 10)) * (2 - 2 * s / max (1 / 10) vesc)"
proof -
  define E where "E = max (1 / 10) vesc"
  have E: "0 < E"
    by (simp add: E_def)
  have r1: "s / E \<le> 1"
    using assms(2) E by (simp add: divide_le_eq E_def [symmetric])
  have r2: "1 / 2 \<le> s / E"
    using assms(1) E by (simp add: le_divide_eq E_def [symmetric] algebra_simps)
  have u: "alignFactorFor gf vesc s False
           = (if s / E > 1 / 2 then min 1 (gf * (1 / 10)) * max 0 (1 - (s / E - 1 / 2) * 2)
              else min 1 (gf * (1 / 10)))"
    unfolding E_def by (rule alignFactorFor_unfold)
  have "alignFactorFor gf vesc s False = min 1 (gf * (1 / 10)) * (2 - 2 * s / E)"
  proof (cases "s / E > 1 / 2")
    case True
    have "max 0 (1 - (q - 1 / 2) * 2) = 2 - 2 * q" if "q \<le> 1" for q :: real
      using that by (simp add: max_def)
    from this [OF r1] have "max 0 (1 - (s / E - 1 / 2) * 2) = 2 - 2 * s / E"
      by simp
    then show ?thesis
      using True by (simp add: u)
  next
    case False
    then have "s / E = 1 / 2"
      using r2 by simp
    then have "2 - 2 * s / E = 1"
      by simp
    then show ?thesis
      using False by (simp add: u)
  qed
  then show ?thesis
    by (simp add: E_def)
qed

lemma alignFactorFor_decreasing:
  assumes "0 < gf" and "max (1 / 10) vesc / 2 \<le> sa" and "sa < sb"
    and "sb \<le> max (1 / 10) vesc"
  shows "alignFactorFor gf vesc sb False < alignFactorFor gf vesc sa False"
proof -
  define E where "E = max (1 / 10) vesc"
  have E: "0 < E"
    by (simp add: E_def)
  have A: "0 < min 1 (gf * (1 / 10))"
    using assms(1) by simp
  have "sa / E < sb / E"
    using assms(3) E by (simp add: divide_strict_right_mono)
  then have "2 - 2 * sb / E < 2 - 2 * sa / E"
    by simp
  then have "min 1 (gf * (1 / 10)) * (2 - 2 * sb / E)
             < min 1 (gf * (1 / 10)) * (2 - 2 * sa / E)"
    using A by (rule mult_strict_left_mono)
  moreover have "alignFactorFor gf vesc sa False
                 = min 1 (gf * (1 / 10)) * (2 - 2 * sa / E)"
    unfolding E_def using assms(2,3,4) by (intro alignFactorFor_band) simp_all
  moreover have "alignFactorFor gf vesc sb False
                 = min 1 (gf * (1 / 10)) * (2 - 2 * sb / E)"
    unfolding E_def using assms(2,3,4) by (intro alignFactorFor_band) simp_all
  ultimately show ?thesis
    by simp
qed

lemma alignFactorFor_zero:
  assumes "max (1 / 10) vesc \<le> s"
  shows "alignFactorFor gf vesc s False = 0"
proof -
  define E where "E = max (1 / 10) vesc"
  have E: "0 < E"
    by (simp add: E_def)
  have r: "1 \<le> s / E"
    using assms E by (simp add: le_divide_eq E_def [symmetric])
  have "max 0 (1 - (q - 1 / 2) * 2) = 0" if "1 \<le> q" for q :: real
    using that by (simp add: max_def)
  from this [OF r] have "max 0 (1 - (s / E - 1 / 2) * 2) = 0" .
  moreover have "s / E > 1 / 2"
    using r by linarith
  ultimately have "(if s / E > 1 / 2
      then min 1 (gf * (1 / 10)) * max 0 (1 - (s / E - 1 / 2) * 2)
      else min 1 (gf * (1 / 10))) = 0"
    by simp
  then show ?thesis
    unfolding E_def alignFactorFor_unfold .
qed

lemma alignWithSurface_factor:
  assumes "influenceLoop physics (player_position player) planets None
           = Some (Some (P, minD, vesc, gf))"
    and "minD \<le> 500" and "\<not> player_noclip player" and "\<not> player_onGround player"
  shows "alignWithSurface (player\<lparr>player_velocity := v\<rparr>) physics planets
         = Some (player\<lparr>player_velocity := v,
                        alignmentNeeded := alignFactorFor gf vesc (vlength v) False\<rparr>,
                 alignFactorFor gf vesc (vlength v) False < 1 / 10)"
  using assms by (simp add: alignWithSurface_def Let_def)

lemma tiny_planet_influence:
  "influenceLoop (Some Physics_constructor) (Vector3 0 8 0) [tinyPlanet] None
   = Some (Some (tinyPlanet, 8 - 1 / 100000, 1 / 20, 1 / 6400))"
  by (simp add: tinyPlanet_def effectiveG_def Physics_constructor_def distanceTo_def
      lengthSq_def subVectors_def real_sqrt_divide Let_def)

lemma planetA_influence:
  "influenceLoop (Some Physics_constructor) (Vector3 0 50 0) [planetA] None
   = Some (Some (planetA, 40, 20, 4))"
  by (simp add: planetA_def effectiveG_def Physics_constructor_def distanceTo_def
      lengthSq_def subVectors_def Let_def)

text \<open>
  Claim C7 as stated fails where the escape velocity is below the floor of 0.1
  that the code puts under it. For a planet of radius 0.00001 at distance 8 the
  escape velocity is 0.05; an avatar moving at 0.08, above the escape velocity,
  still gets a positive alignment factor.
\<close>

theorem escape_velocity_floor_counterexample:
  "influenceLoop (Some Physics_constructor) (Vector3 0 8 0) [tinyPlanet] None
     = Some (Some (tinyPlanet, 8 - 1 / 100000, 1 / 20, 1 / 6400))
   \<and> vlength (Vector3 (2 / 25) 0 0) = 2 / 25 \<and> (1::real) / 20 \<le> 2 / 25
   \<and> alignWithSurface
        (newPlayer\<lparr>player_position := Vector3 0 8 0, player_velocity := Vector3 (2 / 25) 0 0\<rparr>)
        (Some Physics_constructor) [tinyPlanet]
      = Some (newPlayer\<lparr>player_position := Vector3 0 8 0,
                         player_velocity := Vector3 (2 / 25) 0 0,
                         alignmentNeeded := 1 / 160000\<rparr>, True)"
proof -
  have v: "vlength (Vector3 (2 / 25) 0 0) = 2 / 25"
    by (simp add: vlength_def lengthSq_def real_sqrt_divide)
  have "alignWithSurface
        (newPlayer\<lparr>player_position := Vector3 0 8 0, player_velocity := Vector3 (2 / 25) 0 0\<rparr>)
        (Some Physics_constructor) [tinyPlanet]
      = Some (newPlayer\<lparr>player_position := Vector3 0 8 0,
                         player_velocity := Vector3 (2 / 25) 0 0,
                         alignmentNeeded := 1 / 160000\<rparr>, True)"
    using tiny_planet_influence
    by (simp add: alignWithSurface_def newPlayer_def v alignFactorFor_def Let_def)
  then show ?thesis
    using tiny_planet_influence v by simp
qed

text \<open>
  Claim C7, amended. For an avatar that is not on the ground, with position,
  planet list and gravitational constant fixed and a positive gravity factor, let
  \<open>E = max(0.1, v_esc)\<close> be the local escape velocity with the floor of 0.1 the code
  applies (so \<open>E = v_esc\<close> whenever \<open>v_esc \<ge> 0.1\<close>). The alignment factor computed
  by \<open>alignWithSurface\<close> strictly decreases as the speed increases from \<open>E/2\<close> to
  \<open>E\<close>, and is 0 for every speed at or above \<open>E\<close>.
\<close>

theorem alignment_fades_with_speed:
  assumes "influenceLoop physics (player_position player) planets None
           = Some (Some (P, minD, vesc, gf))"
    and "minD \<le> 500" and "\<not> player_noclip player" and "\<not> player_onGround player"
    and "0 < gf"
  shows "(\<forall>va vb. max (1 / 10) vesc / 2 \<le> vlength va \<and> vlength va < vlength vb
            \<and> vlength vb \<le> max (1 / 10) vesc \<longrightarrow>
            (\<exists>pa pb ra rb.
               alignWithSurface (player\<lparr>player_velocity := va\<rparr>) physics planets = Some (pa, ra)
               \<and> alignWithSurface (player\<lparr>player_velocity := vb\<rparr>) physics planets
                   = Some (pb, rb)
               \<and> alignmentNeeded pb < alignmentNeeded pa))
         \<and> (\<forall>v. max (1 / 10) vesc \<le> vlength v \<longrightarrow>
              (\<exists>p r. alignWithSurface (player\<lparr>player_velocity := v\<rparr>) physics planets
                       = Some (p, r)
                 \<and> alignmentNeeded p = 0))"
proof -
  note f = alignWithSurface_factor [OF assms(1-4)]
  have a: "\<forall>va vb. max (1 / 10) vesc / 2 \<le> vlength va \<and> vlength va < vlength vb
            \<and> vlength vb \<le> max (1 / 10) vesc \<longrightarrow>
            (\<exists>pa pb ra rb.
               alignWithSurface (player\<lparr>player_velocity := va\<rparr>) physics planets = Some (pa, ra)
               \<and> alignWithSurface (player\<lparr>player_velocity := vb\<rparr>) physics planets
                   = Some (pb, rb)
               \<and> alignmentNeeded pb < alignmentNeeded pa)"
  proof (intro allI impI)
    fix va vb
    assume h: "max (1 / 10) vesc / 2 \<le> vlength va \<and> vlength va < vlength vb
            \<and> vlength vb \<le> max (1 / 10) vesc"
    then have "alignFactorFor gf vesc (vlength vb) False
               < alignFactorFor gf vesc (vlength va) False"
      using assms(5) by (intro alignFactorFor_decreasing) simp_all
    then show "\<exists>pa pb ra rb.
               alignWithSurface (player\<lparr>player_velocity := va\<rparr>) physics planets = Some (pa, ra)
               \<and> alignWithSurface (player\<lparr>player_velocity := vb\<rparr>) physics planets
                   = Some (pb, rb)
               \<and> alignmentNeeded pb < alignmentNeeded pa"
      by (simp add: f)
  qed
  have b: "\<forall>v. max (1 / 10) vesc \<le> vlength v \<longrightarrow>
              (\<exists>p r. alignWithSurface (player\<lparr>player_velocity := v\<rparr>) physics planets
                       = Some (p, r)
                 \<and> alignmentNeeded p = 0)"
  proof (intro allI impI)
    fix v
    assume "max (1 / 10) vesc \<le> vlength v"
    then have "alignFactorFor gf vesc (vlength v) False = 0"
      by (rule alignFactorFor_zero)
    then show "\<exists>p r. alignWithSurface (player\<lparr>player_velocity := v\<rparr>) physics planets
                       = Some (p, r)
                 \<and> alignmentNeeded p = 0"
      by (auto simp: f)
  qed
  from a b show ?thesis
    by (intro conjI)
qed

theorem alignment_fades_with_speed_witness:
  "influenceLoop (Some Physics_constructor) (Vector3 0 50 0) [planetA] None
     = Some (Some (planetA, 40, 20, 4))
   \<and> (40::real) \<le> 500 \<and> (0::real) < 4 \<and> max (1 / 10) (20::real) = 20
   \<and> vlength (Vector3 10 0 0) = 10 \<and> vlength (Vector3 15 0 0) = 15
   \<and> vlength (Vector3 20 0 0) = 20
   \<and> (\<exists>pa pb ra rb.
         alignWithSurface (newPlayer\<lparr>player_position := Vector3 0 50 0,
                                     player_velocity := Vector3 10 0 0\<rparr>)
           (Some Physics_constructor) [planetA] = Some (pa, ra)
         \<and> alignWithSurface (newPlayer\<lparr>player_position := Vector3 0 50 0,
                                       player_velocity := Vector3 15 0 0\<rparr>)
             (Some Physics_constructor) [planetA] = Some (pb, rb)
         \<and> alignmentNeeded pb < alignmentNeeded pa)
   \<and> (\<exists>p r. alignWithSurface (newPlayer\<lparr>player_position := Vector3 0 50 0,
                                        player_velocity := Vector3 20 0 0\<rparr>)
                (Some Physics_constructor) [planetA] = Some (p, r)
          \<and> alignmentNeeded p = 0)"
proof -
  let ?pl = "newPlayer\<lparr>player_position := Vector3 0 50 0\<rparr>"
  have i: "influenceLoop (Some Physics_constructor) (player_position ?pl) [planetA] None
           = Some (Some (planetA, 40, 20, 4))"
    using planetA_influence by simp
  have n: "\<not> player_noclip ?pl" "\<not> player_onGround ?pl"
    by (simp_all add: newPlayer_def)
  have v: "vlength (Vector3 10 0 0) = 10" "vlength (Vector3 15 0 0) = 15"
    "vlength (Vector3 20 0 0) = 20"
    by (simp_all add: vlength_def lengthSq_def)
  have m: "max (1 / 10) (20::real) = 20"
    by simp
  note t = alignment_fades_with_speed [OF i _ n, simplified m]
  have "\<exists>pa pb ra rb.
         alignWithSurface (?pl\<lparr>player_velocity := Vector3 10 0 0\<rparr>)
           (Some Physics_constructor) [planetA] = Some (pa, ra)
         \<and> alignWithSurface (?pl\<lparr>player_velocity := Vector3 15 0 0\<rparr>)
             (Some Physics_constructor) [planetA] = Some (pb, rb)
         \<and> alignmentNeeded pb < alignmentNeeded pa"
    using t v by simp
  moreover have "\<exists>p r. alignWithSurface (?pl\<lparr>player_velocity := Vector3 20 0 0\<rparr>)
                (Some Physics_constructor) [planetA] = Some (p, r)
          \<and> alignmentNeeded p = 0"
    using t v by simp
  ultimately show ?thesis
    using planetA_influence v by simp
qed

end
